theory Spec2Isabelle
  imports Main
begin

section \<open>The Python run-time the script relies on\<close>

text \<open>
  The script \<^verbatim>\<open>s3-create-locked-objects-parallel.py\<close> is a sequence of module-level
  statements around three functions. Its strings are Python \<^verbatim>\<open>str\<close> values; they are modelled
  as \<^typ>\<open>string\<close>, one \<^typ>\<open>char\<close> per code point, which covers the code points
  U+0000 to U+00FF. Exceptions are values of \<open>py_error\<close>; a computation that may raise
  returns \<open>py_error + 'a\<close>.
\<close>

datatype py_error =
    ValueError
  | IndexError
  | EOFError
  | SystemExit
  | ClientError string
  | OtherError string

text \<open>
  The console: the lines still to be typed by the user, and every character written to
  standard output so far. \<^verbatim>\<open>print(x)\<close> writes \<open>x\<close> and a newline,
  \<^verbatim>\<open>print(x, end="")\<close> writes \<open>x\<close> alone, \<^verbatim>\<open>input(p)\<close> writes the prompt \<open>p\<close> and
  returns the next line, raising \<^verbatim>\<open>EOFError\<close> when there is none.
\<close>

record console =
  stdin :: "string list"
  stdout :: string

definition py_write :: "string \<Rightarrow> console \<Rightarrow> console" where
  "py_write s c = c\<lparr>stdout := stdout c @ s\<rparr>"

definition py_print :: "string \<Rightarrow> console \<Rightarrow> console" where
  "py_print s c = py_write (s @ [CHR 0x0A]) c"

definition py_input :: "string \<Rightarrow> console \<Rightarrow> (py_error + string) \<times> console" where
  "py_input prompt c =
     (case stdin c of
        [] \<Rightarrow> (Inl EOFError, py_write prompt c)
      | l # ls \<Rightarrow> (Inr l, (py_write prompt c)\<lparr>stdin := ls\<rparr>))"

subsection \<open>Digits, \<^verbatim>\<open>str.isdigit\<close>, \<^verbatim>\<open>int\<close> and \<^verbatim>\<open>str\<close>\<close>

definition is_decimal :: "char \<Rightarrow> bool" where
  "is_decimal c = (c \<in> set ''0123456789'')"

text \<open>
  \<^verbatim>\<open>str.isdigit\<close> holds of a non-empty string whose characters all have the Unicode
  property Numeric_Type=Digit or Decimal. Below U+0100 these are the ten decimal digits and
  the superscripts U+00B2, U+00B3 and U+00B9.
\<close>

definition is_digit_char :: "char \<Rightarrow> bool" where
  "is_digit_char c = (is_decimal c \<or> c \<in> set [CHR 0xB2, CHR 0xB3, CHR 0xB9])"

definition isdigit :: "string \<Rightarrow> bool" where
  "isdigit s = (s \<noteq> [] \<and> list_all is_digit_char s)"

text \<open>
  \<^verbatim>\<open>int(s)\<close> in base ten: white space around the literal is skipped, one sign may precede
  the digits, and a single underscore may stand between two digits. The digits it takes are
  the decimal ones; anything else raises \<^verbatim>\<open>ValueError\<close>. So does a literal of more than
  \<open>max_str_digits\<close> digits, leading zeros counted and underscores not: 4300 is the limit
  of the interpreter unless it is configured otherwise.
\<close>

definition max_str_digits :: nat where
  "max_str_digits = 4300"

definition int_space :: "char \<Rightarrow> bool" where
  "int_space c =
     (c \<in> set [CHR 0x09, CHR 0x0A, CHR 0x0B, CHR 0x0C, CHR 0x0D, CHR 0x20, CHR 0x85, CHR 0xA0])"

definition strip :: "string \<Rightarrow> string" where
  "strip s = rev (dropWhile int_space (rev (dropWhile int_space s)))"

fun int_digits :: "string \<Rightarrow> bool" where
  "int_digits [] = False"
| "int_digits [c] = is_decimal c"
| "int_digits (c # u # cs) =
     (is_decimal c \<and> (if u = CHR ''_'' then int_digits cs else int_digits (u # cs)))"

definition digit_val :: "char \<Rightarrow> nat" where
  "digit_val c = of_char c - 48"

definition digits_value :: "string \<Rightarrow> nat" where
  "digits_value ds = foldl (\<lambda>a c. 10 * a + digit_val c) 0 ds"

definition py_int :: "string \<Rightarrow> py_error + int" where
  "py_int s =
     (let t = strip s;
          (sign, ds) = (case t of
                          [] \<Rightarrow> (1, [])
                        | c # r \<Rightarrow> if c = CHR ''-'' then (- 1, r)
                                   else if c = CHR ''+'' then (1, r) else (1, t))
      in if int_digits ds \<and> length (filter (\<lambda>c. c \<noteq> CHR ''_'') ds) \<le> max_str_digits
         then Inr (sign * int (digits_value (filter (\<lambda>c. c \<noteq> CHR ''_'') ds)))
         else Inl ValueError)"

definition digit_char :: "nat \<Rightarrow> char" where
  "digit_char d = ''0123456789'' ! d"

function str_nat :: "nat \<Rightarrow> string" where
  "str_nat n = (if n < 10 then [digit_char n] else str_nat (n div 10) @ [digit_char (n mod 10)])"
  by pat_completeness auto
termination
  by (relation "measure id") auto

declare str_nat.simps [simp del]

definition decimal :: "int \<Rightarrow> string" where
  "decimal i = (if i < 0 then CHR ''-'' # str_nat (nat (- i)) else str_nat (nat i))"

text \<open>
  \<^verbatim>\<open>str(i)\<close>, which is also how an f-string formats an integer: the decimal numeral of
  \<open>i\<close>, or \<^verbatim>\<open>ValueError\<close> when the numeral has more than \<open>max_str_digits\<close> digits.
\<close>

definition py_str :: "int \<Rightarrow> py_error + string" where
  "py_str i =
     (if max_str_digits < length (str_nat (nat \<bar>i\<bar>)) then Inl ValueError else Inr (decimal i))"

text \<open>
  \<^verbatim>\<open>xs[i]\<close>: a negative index counts from the end, and an index outside
  \<open>-len(xs) .. len(xs) - 1\<close> raises \<^verbatim>\<open>IndexError\<close>.
\<close>

definition py_index :: "'a list \<Rightarrow> int \<Rightarrow> py_error + 'a" where
  "py_index xs i =
     (let n = int (length xs);
          j = (if i < 0 then i + n else i)
      in if 0 \<le> j \<and> j < n then Inr (xs ! nat j) else Inl IndexError)"

text \<open>\<^verbatim>\<open>range(a, b)\<close> and \<^verbatim>\<open>xs[:n]\<close>.\<close>

definition py_range :: "int \<Rightarrow> int \<Rightarrow> int list" where
  "py_range a b = [a..b - 1]"

definition slice_to :: "'a list \<Rightarrow> int \<Rightarrow> 'a list" where
  "slice_to xs n = (if 0 \<le> n then take (nat n) xs else take (length xs - nat (- n)) xs)"

fun join :: "string \<Rightarrow> string list \<Rightarrow> string" where
  "join sep [] = []"
| "join sep [w] = w"
| "join sep (w # v # ws) = w @ sep @ join sep (v # ws)"

subsection \<open>\<^verbatim>\<open>datetime.strptime\<close> for the format of the script\<close>

text \<open>
  \<^verbatim>\<open>strptime\<close> turns the format \<^verbatim>\<open>%Y-%m-%dT%H:%M:%SZ\<close> into the regular expression
  \<^verbatim>\<open>(?P<Y>\d\d\d\d)-(?P<m>1[0-2]|0[1-9]|[1-9])-(?P<d>3[0-1]|[1-2]\d|0[1-9]|[1-9]| [1-9])T(?P<H>2[0-3]|[0-1]\d|\d):(?P<M>[0-5]\d|\d):(?P<S>6[0-1]|[0-5]\d|\d)Z\<close>,
  compiled with \<^verbatim>\<open>re.IGNORECASE\<close>, matches it at the start of the input, and raises
  \<^verbatim>\<open>ValueError\<close> when there is no match, when input remains after the match, and when
  the fields do not make a date and a time.

  The expression has no repetition, so the backtracking matcher is the list of its successes
  in the order in which the engine tries them: each success is the groups captured and the
  input left over. A character class is written out as the characters it holds.
\<close>

datatype regex =
    Lit char
  | Class string
  | Seq regex regex
  | Alt regex regex
  | Group string regex

definition lower :: "char \<Rightarrow> char" where
  "lower c =
     (case map_of (zip ''ABCDEFGHIJKLMNOPQRSTUVWXYZ'' ''abcdefghijklmnopqrstuvwxyz'') c of
        Some l \<Rightarrow> l
      | None \<Rightarrow> c)"

fun re_match :: "regex \<Rightarrow> string \<Rightarrow> ((string \<times> string) list \<times> string) list" where
  "re_match (Lit a) s =
     (case s of [] \<Rightarrow> [] | c # cs \<Rightarrow> if lower c = lower a then [([], cs)] else [])"
| "re_match (Class k) s =
     (case s of [] \<Rightarrow> [] | c # cs \<Rightarrow> if c \<in> set k then [([], cs)] else [])"
| "re_match (Seq r1 r2) s =
     concat (map (\<lambda>(g1, t). map (\<lambda>(g2, u). (g1 @ g2, u)) (re_match r2 t)) (re_match r1 s))"
| "re_match (Alt r1 r2) s = re_match r1 s @ re_match r2 s"
| "re_match (Group n r) s =
     map (\<lambda>(g, t). (g @ [(n, take (length s - length t) s)], t)) (re_match r s)"

definition Digit :: regex where
  "Digit = Class ''0123456789''"

definition re_Y :: regex where
  "re_Y = Group ''Y'' (Seq Digit (Seq Digit (Seq Digit Digit)))"

definition re_m :: regex where
  "re_m = Group ''m''
     (Alt (Seq (Lit CHR ''1'') (Class ''012''))
     (Alt (Seq (Lit CHR ''0'') (Class ''123456789''))
          (Class ''123456789'')))"

definition re_d :: regex where
  "re_d = Group ''d''
     (Alt (Seq (Lit CHR ''3'') (Class ''01''))
     (Alt (Seq (Class ''12'') Digit)
     (Alt (Seq (Lit CHR ''0'') (Class ''123456789''))
     (Alt (Class ''123456789'')
          (Seq (Lit CHR '' '') (Class ''123456789''))))))"

definition re_H :: regex where
  "re_H = Group ''H''
     (Alt (Seq (Lit CHR ''2'') (Class ''0123''))
     (Alt (Seq (Class ''01'') Digit)
          Digit))"

definition re_M :: regex where
  "re_M = Group ''M'' (Alt (Seq (Class ''012345'') Digit) Digit)"

definition re_S :: regex where
  "re_S = Group ''S''
     (Alt (Seq (Lit CHR ''6'') (Class ''01''))
     (Alt (Seq (Class ''012345'') Digit)
          Digit))"

definition format_regex :: regex where
  "format_regex =
     Seq re_Y (Seq (Lit CHR ''-'') (Seq re_m (Seq (Lit CHR ''-'') (Seq re_d (Seq (Lit CHR ''T'')
     (Seq re_H (Seq (Lit CHR '':'') (Seq re_M (Seq (Lit CHR '':'') (Seq re_S (Lit CHR ''Z'')))))))))))"

definition is_leap :: "int \<Rightarrow> bool" where
  "is_leap y = (y mod 4 = 0 \<and> (y mod 100 \<noteq> 0 \<or> y mod 400 = 0))"

definition days_in_month :: "int \<Rightarrow> int \<Rightarrow> int" where
  "days_in_month y m =
     (if m = 2 \<and> is_leap y then 29
      else [31, 28, 31, 30, 31, 30, 31, 31, 30, 31, 30, 31] ! nat (m - 1))"

text \<open>The checks of the \<^verbatim>\<open>date\<close> and \<^verbatim>\<open>datetime\<close> constructors.\<close>

definition check_date_fields :: "int \<Rightarrow> int \<Rightarrow> int \<Rightarrow> bool" where
  "check_date_fields y m d =
     (1 \<le> y \<and> y \<le> 9999 \<and> 1 \<le> m \<and> m \<le> 12 \<and> 1 \<le> d \<and> d \<le> days_in_month y m)"

definition check_time_fields :: "int \<Rightarrow> int \<Rightarrow> int \<Rightarrow> bool" where
  "check_time_fields h mi s =
     (0 \<le> h \<and> h \<le> 23 \<and> 0 \<le> mi \<and> mi \<le> 59 \<and> 0 \<le> s \<and> s \<le> 59)"

definition int_group :: "(string \<times> string) list \<Rightarrow> string \<Rightarrow> py_error + int" where
  "int_group found n = (case map_of found n of None \<Rightarrow> Inl ValueError | Some t \<Rightarrow> py_int t)"

definition strptime :: "string \<Rightarrow> py_error + (int \<times> int \<times> int \<times> int \<times> int \<times> int)" where
  "strptime data_string =
     (case re_match format_regex data_string of
        [] \<Rightarrow> Inl ValueError
      | (found, rest) # _ \<Rightarrow>
          if rest \<noteq> [] then Inl ValueError
          else (case map (int_group found) [''Y'', ''m'', ''d'', ''H'', ''M'', ''S''] of
                  [Inr year, Inr month, Inr day, Inr hour, Inr minute, Inr second] \<Rightarrow>
                    if check_date_fields year month day \<and> check_time_fields hour minute second
                    then Inr (year, month, day, hour, minute, second)
                    else Inl ValueError
                | _ \<Rightarrow> Inl ValueError))"

section \<open>The functions of the script\<close>

text \<open>\<^verbatim>\<open>validate_date\<close>: true when \<^verbatim>\<open>strptime\<close> returns, false when it raises \<^verbatim>\<open>ValueError\<close>.\<close>

definition validate_date :: "string \<Rightarrow> bool" where
  "validate_date date_text = (case strptime date_text of Inr _ \<Rightarrow> True | Inl _ \<Rightarrow> False)"

definition words :: "string list" where
  "words = [
    ''Lorem'', ''ipsum'', ''dolor'', ''sit'', ''amet'', ''consectetur'', ''adipiscing'', ''elit'',
    ''sed'', ''do'', ''eiusmod'', ''tempor'', ''incididunt'', ''ut'', ''labore'', ''et'', ''dolore'',
    ''magna'', ''aliqua'', ''ut'', ''enim'', ''ad'', ''minim'', ''veniam'', ''quis'', ''nostrud'',
    ''exercitation'', ''ullamco'', ''laboris'', ''nisi'', ''ut'', ''aliquip'', ''ex'', ''ea'',
    ''commodo'', ''consequat'', ''duis'', ''aute'', ''irure'', ''dolor'', ''in'', ''reprehenderit'',
    ''in'', ''voluptate'', ''velit'', ''esse'', ''cillum'', ''dolore'', ''eu'', ''fugiat'', ''nulla'',
    ''pariatur'', ''excepteur'', ''sint'', ''occaecat'', ''cupidatat'', ''non'', ''proident'',
    ''sunt'', ''in'', ''culpa'', ''qui'', ''officia'', ''deserunt'', ''mollit'', ''anim'', ''id'', ''est'', ''laborum'']"

text \<open>
  The random module is an oracle of raw draws. \<^verbatim>\<open>random.choices(population, k=k)\<close> picks
  \<open>k\<close> elements, the \<open>i\<close>-th at an index below \<open>len(population)\<close> taken from the \<open>i\<close>-th draw;
  \<^verbatim>\<open>random.randint(a, b)\<close> is \<open>a\<close> plus a draw below \<open>b - a + 1\<close>.
\<close>

definition random_choices :: "'a list \<Rightarrow> int \<Rightarrow> (nat \<Rightarrow> nat) \<Rightarrow> 'a list" where
  "random_choices population k draw =
     map (\<lambda>i. population ! (draw i mod length population)) [0..<nat k]"

definition randint :: "int \<Rightarrow> int \<Rightarrow> nat \<Rightarrow> int" where
  "randint a b draw = a + int (draw mod nat (b - a + 1))"

definition generate_readable_text :: "int \<Rightarrow> (nat \<Rightarrow> nat) \<Rightarrow> string" where
  "generate_readable_text size_kb draw =
     (let content = join '' '' (random_choices words (size_kb * 200) draw)
      in slice_to content (size_kb * 1024))"

subsection \<open>The object store and \<^verbatim>\<open>create_object\<close>\<close>

text \<open>
  The S3 client, as far as the script uses it: the names that \<^verbatim>\<open>list_buckets\<close> returns in
  listing order, the answer to \<^verbatim>\<open>get_object_lock_configuration\<close> for a bucket (the keys of
  the response, or the exception raised), and the exception that \<^verbatim>\<open>put_object\<close> raises for a
  request, if any.
\<close>

datatype lock_reply = Response "string list" | Raises py_error

record put_request =
  Bucket :: string
  Key :: string
  Body :: string
  ObjectLockMode :: string
  ObjectLockRetainUntilDate :: string

record s3_client =
  list_buckets :: "string list"
  get_object_lock_configuration :: "string \<Rightarrow> lock_reply"
  put_object :: "put_request \<Rightarrow> py_error option"

text \<open>The draws one task takes from the random module: one for the size, then one per word.\<close>

record task_random =
  size_draw :: nat
  word_draw :: "nat \<Rightarrow> nat"

text \<open>What a task does: the \<^verbatim>\<open>put_object\<close> call it makes and the exception it ends with, if any.\<close>

record task_result =
  request :: put_request
  raised :: "py_error option"

definition random_size_kb :: "task_random \<Rightarrow> int" where
  "random_size_kb rnd = randint 1 1024 (size_draw rnd)"

definition create_object :: "s3_client \<Rightarrow> string \<Rightarrow> string \<Rightarrow> string \<Rightarrow> task_random \<Rightarrow> task_result" where
  "create_object s3 bucket_name object_key retention rnd =
     (let content = generate_readable_text (random_size_kb rnd) (word_draw rnd);
          req = \<lparr>Bucket = bucket_name, Key = object_key, Body = content,
                 ObjectLockMode = ''GOVERNANCE'', ObjectLockRetainUntilDate = retention\<rparr>
      in \<lparr>request = req, raised = put_object s3 req\<rparr>)"

section \<open>The module-level statements\<close>

subsection \<open>Bucket discovery\<close>

fun lock_filter_loop :: "s3_client \<Rightarrow> string list \<Rightarrow> string list \<Rightarrow> py_error + string list" where
  "lock_filter_loop s3 acc [] = Inr acc"
| "lock_filter_loop s3 acc (name # rest) =
     (case get_object_lock_configuration s3 name of
        Response object_lock_config \<Rightarrow>
          lock_filter_loop s3
            (if ''ObjectLockConfiguration'' \<in> set object_lock_config then acc @ [name] else acc) rest
      | Raises (ClientError code) \<Rightarrow>
          if code \<noteq> ''ObjectLockConfigurationNotFoundError'' then Inl (ClientError code)
          else lock_filter_loop s3 acc rest
      | Raises e \<Rightarrow> Inl e)"

definition buckets_with_object_lock :: "s3_client \<Rightarrow> py_error + string list" where
  "buckets_with_object_lock s3 = lock_filter_loop s3 [] (list_buckets s3)"

definition show_buckets :: "string list \<Rightarrow> console \<Rightarrow> (py_error + unit) \<times> console" where
  "show_buckets buckets c =
     (let c1 = py_print ''All Existing buckets list:'' c
      in if buckets = []
         then (Inl SystemExit,
               py_print ''Exiting because no bucket available on the system...''
                 (py_print (CHR 0x09 # ''- None'') c1))
         else (Inr (), foldl (\<lambda>c' name. py_print (CHR 0x09 # ''- '' @ name) c') c1 buckets))"

text \<open>
  The list of choices numbers the buckets from one. A list held in memory has fewer than
  \<open>2^64\<close> entries, so the number printed has at most twenty digits and its conversion
  cannot raise: it is written as the numeral itself.
\<close>

definition show_choices :: "string list \<Rightarrow> console \<Rightarrow> console" where
  "show_choices locked c =
     (let c1 = py_print (CHR 0x0A # ''List of buckets to create locked objects:'') c
      in if locked = [] then py_print (CHR 0x09 # ''None'') c1
         else foldl (\<lambda>c' (i, bucket_name).
                       py_print (CHR 0x09 # '' '' @ decimal (int i + 1) @ ''. '' @ bucket_name) c')
                c1 (enumerate 0 locked))"

subsection \<open>The prompts\<close>

definition select_bucket :: "string list \<Rightarrow> console \<Rightarrow> (py_error + string) \<times> console" where
  "select_bucket locked c =
     (case py_input (CHR 0x0A # ''Enter the number of the bucket with ObjectLock you want to use: '') c of
        (Inl e, c1) \<Rightarrow> (Inl e, c1)
      | (Inr line, c1) \<Rightarrow>
          (case py_int line of
             Inl e \<Rightarrow> (Inl e, c1)
           | Inr k \<Rightarrow>
               (case py_index locked (k - 1) of
                  Inl e \<Rightarrow> (Inl e, c1)
                | Inr bucket_name \<Rightarrow> (Inr bucket_name, py_print (''Selected bucket: '' @ bucket_name) c1))))"

text \<open>
  \<^verbatim>\<open>while not valid(answer): print(complaint); answer = input(prompt)\<close>. Each round takes a
  line from the console, so the loop ends: with an accepted answer, or with \<^verbatim>\<open>EOFError\<close>.
\<close>

function reprompt :: "(string \<Rightarrow> bool) \<Rightarrow> string \<Rightarrow> string \<Rightarrow> string \<Rightarrow> console \<Rightarrow> (py_error + string) \<times> console" where
  "reprompt valid complaint prompt answer c =
     (if valid answer then (Inr answer, c)
      else (case py_input prompt (py_print complaint c) of
              (Inl e, c') \<Rightarrow> (Inl e, c')
            | (Inr answer', c') \<Rightarrow> reprompt valid complaint prompt answer' c'))"
  by pat_completeness auto
termination
  by (relation "measure (\<lambda>(valid, complaint, prompt, answer, c). length (stdin c))")
     (auto simp: py_input_def py_print_def py_write_def split: list.splits)

declare reprompt.simps [simp del]

definition retention_prompt :: string where
  "retention_prompt =
     ''Specify r'' @ [CHR 0xE9] @ ''tention date using ISO 8601 format (Example: 2024-12-31T00:00:00Z): ''"

definition read_retention :: "console \<Rightarrow> (py_error + string) \<times> console" where
  "read_retention c =
     (case py_input retention_prompt c of
        (Inl e, c1) \<Rightarrow> (Inl e, c1)
      | (Inr retention, c1) \<Rightarrow>
          reprompt validate_date ''Invalid Date Format. Please Retry.'' retention_prompt retention c1)"

definition read_num_objects :: "console \<Rightarrow> (py_error + int) \<times> console" where
  "read_num_objects c =
     (case py_input ''Enter the number of objects to create: '' c of
        (Inl e, c1) \<Rightarrow> (Inl e, c1)
      | (Inr num_objects, c1) \<Rightarrow>
          (case reprompt isdigit ''Please enter a valid number.''
                  ''Enter the number of objects to create: '' num_objects c1 of
             (Inl e, c2) \<Rightarrow> (Inl e, c2)
           | (Inr num_objects', c2) \<Rightarrow> (py_int num_objects', c2)))"

definition read_prefix :: "console \<Rightarrow> (py_error + string) \<times> console" where
  "read_prefix c = py_input ''Enter object prefix to be used for this serie of locked objects: '' c"

definition read_start_index :: "console \<Rightarrow> (py_error + int) \<times> console" where
  "read_start_index c =
     (case py_input ''Enter the initial index to use for the objects: '' c of
        (Inl e, c1) \<Rightarrow> (Inl e, c1)
      | (Inr start_index, c1) \<Rightarrow>
          (case reprompt isdigit ''Please enter a valid number.''
                  ''Enter the starting index you want to use o number the objects to be created: ''
                  start_index c1 of
             (Inl e, c2) \<Rightarrow> (Inl e, c2)
           | (Inr start_index', c2) \<Rightarrow> (py_int start_index', c2)))"

subsection \<open>The parallel upload\<close>

text \<open>
  One task is submitted per index of \<^verbatim>\<open>range(start_index, start_index + num_objects)\<close>; the
  task for index \<open>i\<close> takes the draws \<open>rnd i\<close>. Building the key formats the index, which
  raises \<^verbatim>\<open>ValueError\<close> for an index of more than \<open>max_str_digits\<close> digits: the loop then
  ends with the tasks submitted so far. The pool runs every submitted task: leaving the
  \<^verbatim>\<open>with\<close> block waits for all of them, also when an exception leaves it. A task that ends
  without an exception has written one dot.

  \<^verbatim>\<open>as_completed\<close> yields every future once, in an order that the run-time decides (the
  futures already finished first, in no fixed order, then the others as they finish). The
  order is a parameter: the \<open>k\<close>-th submitted future is yielded by increasing \<open>finish k\<close>,
  and every order is the order of some \<open>finish\<close>. \<^verbatim>\<open>future.result()\<close> raises in the main
  thread what the task raised.
\<close>

fun submit_loop :: "s3_client \<Rightarrow> (int \<Rightarrow> task_random) \<Rightarrow> string \<Rightarrow> string \<Rightarrow> string \<Rightarrow> int list \<Rightarrow> task_result list \<Rightarrow> py_error option \<times> task_result list" where
  "submit_loop s3 rnd bucket_name retention prefix [] futures = (None, futures)"
| "submit_loop s3 rnd bucket_name retention prefix (i # rest) futures =
     (case py_str i of
        Inl e \<Rightarrow> (Some e, futures)
      | Inr digits \<Rightarrow>
          submit_loop s3 rnd bucket_name retention prefix rest
            (futures @ [create_object s3 bucket_name (prefix @ digits @ ''.txt'') retention (rnd i)]))"

definition submit_all :: "s3_client \<Rightarrow> (int \<Rightarrow> task_random) \<Rightarrow> string \<Rightarrow> string \<Rightarrow> string \<Rightarrow> int \<Rightarrow> int \<Rightarrow> py_error option \<times> task_result list" where
  "submit_all s3 rnd bucket_name retention prefix start_index num_objects =
     submit_loop s3 rnd bucket_name retention prefix
       (py_range start_index (start_index + num_objects)) []"

definition as_completed :: "(nat \<Rightarrow> nat) \<Rightarrow> 'a list \<Rightarrow> 'a list" where
  "as_completed finish futures = map snd (sort_key (\<lambda>(k, f). finish k) (enumerate 0 futures))"

fun wait_results :: "task_result list \<Rightarrow> py_error + unit" where
  "wait_results [] = Inr ()"
| "wait_results (future # rest) =
     (case raised future of Some e \<Rightarrow> Inl e | None \<Rightarrow> wait_results rest)"

definition progress :: "task_result list \<Rightarrow> string" where
  "progress futures = concat (map (\<lambda>t. if raised t = None then ''.'' else []) futures)"

definition summary_text :: "string \<Rightarrow> string \<Rightarrow> string \<Rightarrow> string" where
  "summary_text digits prefix bucket_name =
     CHR 0x0A # digits @ '' locked objects successfully created with prefix ''
       @ [CHR 0x27] @ prefix @ [CHR 0x27] @ '' in bucket '' @ [CHR 0x27] @ bucket_name @ [CHR 0x27] @ ''.''"

definition summary :: "int \<Rightarrow> string \<Rightarrow> string \<Rightarrow> py_error + string" where
  "summary num_objects prefix bucket_name =
     (case py_str num_objects of
        Inl e \<Rightarrow> Inl e
      | Inr digits \<Rightarrow> Inr (summary_text digits prefix bucket_name))"

definition upload_and_report :: "s3_client \<Rightarrow> (int \<Rightarrow> task_random) \<Rightarrow> (nat \<Rightarrow> nat) \<Rightarrow> string \<Rightarrow> string \<Rightarrow> string \<Rightarrow> int \<Rightarrow> int \<Rightarrow> console \<Rightarrow> (py_error + unit) \<times> console" where
  "upload_and_report s3 rnd finish bucket_name retention prefix start_index num_objects c =
     (let (submit_error, futures) =
            submit_all s3 rnd bucket_name retention prefix start_index num_objects;
          c1 = py_write (progress futures) c
      in case submit_error of
           Some e \<Rightarrow> (Inl e, c1)
         | None \<Rightarrow>
             (case wait_results (as_completed finish futures) of
                Inl e \<Rightarrow> (Inl e, c1)
              | Inr u \<Rightarrow>
                  (case summary num_objects prefix bucket_name of
                     Inl e \<Rightarrow> (Inl e, c1)
                   | Inr line \<Rightarrow> (Inr (), py_print line c1))))"

subsection \<open>The whole run, from the bucket listing on\<close>

definition script :: "s3_client \<Rightarrow> (int \<Rightarrow> task_random) \<Rightarrow> (nat \<Rightarrow> nat) \<Rightarrow> console \<Rightarrow> (py_error + unit) \<times> console" where
  "script s3 rnd finish c =
     (case buckets_with_object_lock s3 of
        Inl e \<Rightarrow> (Inl e, c)
      | Inr locked \<Rightarrow>
     (case show_buckets (list_buckets s3) c of
        (Inl e, c1) \<Rightarrow> (Inl e, c1)
      | (Inr u, c1) \<Rightarrow>
     (case select_bucket locked (show_choices locked c1) of
        (Inl e, c2) \<Rightarrow> (Inl e, c2)
      | (Inr bucket_name, c2) \<Rightarrow>
     (case read_retention c2 of
        (Inl e, c3) \<Rightarrow> (Inl e, c3)
      | (Inr retention, c3) \<Rightarrow>
     (case read_num_objects c3 of
        (Inl e, c4) \<Rightarrow> (Inl e, c4)
      | (Inr num_objects, c4) \<Rightarrow>
     (case read_prefix c4 of
        (Inl e, c5) \<Rightarrow> (Inl e, c5)
      | (Inr prefix, c5) \<Rightarrow>
     (case read_start_index c5 of
        (Inl e, c6) \<Rightarrow> (Inl e, c6)
      | (Inr start_index, c6) \<Rightarrow>
          upload_and_report s3 rnd finish bucket_name retention prefix start_index num_objects c6)))))))"

section \<open>Notions used to state the properties\<close>

text \<open>
  A bucket has object lock enabled when the query returned a response holding the key
  \<^verbatim>\<open>ObjectLockConfiguration\<close>; a query aborts discovery when it raised anything but a
  \<^verbatim>\<open>ClientError\<close> with the code \<^verbatim>\<open>ObjectLockConfigurationNotFoundError\<close>.
\<close>

definition lock_enabled :: "s3_client \<Rightarrow> string \<Rightarrow> bool" where
  "lock_enabled s3 name =
     (case get_object_lock_configuration s3 name of
        Response keys \<Rightarrow> ''ObjectLockConfiguration'' \<in> set keys
      | Raises e \<Rightarrow> False)"

definition aborts :: "s3_client \<Rightarrow> string \<Rightarrow> bool" where
  "aborts s3 name =
     (case get_object_lock_configuration s3 name of
        Response keys \<Rightarrow> False
      | Raises e \<Rightarrow> e \<noteq> ClientError ''ObjectLockConfigurationNotFoundError'')"

subsection \<open>Example environments\<close>

text \<open>
  Two object stores with the same four buckets. In the first, \<^verbatim>\<open>logs\<close> has no lock
  configuration, the response for \<^verbatim>\<open>plain\<close> holds no configuration, and every upload
  succeeds. In the second, the query for \<^verbatim>\<open>plain\<close> and every upload are denied. The fixed
  draws ask for one KiB of the first word; \<open>typed\<close> is a console with the given lines typed
  and nothing printed yet.
\<close>

definition example_store :: s3_client where
  "example_store =
     \<lparr>list_buckets = [''logs'', ''vault'', ''plain'', ''archive''],
      get_object_lock_configuration =
        (\<lambda>name. if name = ''logs'' then Raises (ClientError ''ObjectLockConfigurationNotFoundError'')
                else if name = ''plain'' then Response [''ResponseMetadata'']
                else Response [''ResponseMetadata'', ''ObjectLockConfiguration'']),
      put_object = (\<lambda>req. None)\<rparr>"

definition denying_store :: s3_client where
  "denying_store =
     \<lparr>list_buckets = [''logs'', ''vault'', ''plain'', ''archive''],
      get_object_lock_configuration =
        (\<lambda>name. if name = ''logs'' then Raises (ClientError ''ObjectLockConfigurationNotFoundError'')
                else if name = ''plain'' then Raises (ClientError ''AccessDenied'')
                else Response [''ResponseMetadata'', ''ObjectLockConfiguration'']),
      put_object = (\<lambda>req. Some (ClientError ''AccessDenied''))\<rparr>"

definition fixed_draws :: "int \<Rightarrow> task_random" where
  "fixed_draws i = \<lparr>size_draw = 0, word_draw = (\<lambda>k. 0)\<rparr>"

definition typed :: "string list \<Rightarrow> console" where
  "typed lines = \<lparr>stdin = lines, stdout = []\<rparr>"

text \<open>
  The first store again, with every upload denied; tasks that end in the order of their
  submission; and \<open>ends_with s t\<close>: the text \<open>s\<close> ends with \<open>t\<close>.
\<close>

definition readonly_store :: s3_client where
  "readonly_store = example_store\<lparr>put_object := (\<lambda>req. Some (ClientError ''AccessDenied''))\<rparr>"

definition in_order :: "nat \<Rightarrow> nat" where
  "in_order k = k"

definition ends_with :: "string \<Rightarrow> string \<Rightarrow> bool" where
  "ends_with s t = (length t \<le> length s \<and> drop (length s - length t) s = t)"




section \<open>The content generator\<close>

lemma words_length: "length words = 69"
  by (simp add: words_def)

lemma random_choices_length: "length (random_choices population k draw) = nat k"
  by (simp add: random_choices_def)

lemma random_choices_subset:
  "population \<noteq> [] \<Longrightarrow> set (random_choices population k draw) \<subseteq> set population"
  by (auto simp: random_choices_def)

lemma join_replicate_length:
  "length (join sep (replicate (Suc n) w)) = Suc n * length w + n * length sep"
  by (induction n) simp_all

text \<open>
  C2. For a requested size \<open>S \<ge> 1\<close> (in KiB), \<^verbatim>\<open>generate_readable_text(S)\<close> returns at most
  \<open>S * 1024\<close> characters, and exactly \<open>S * 1024\<close> when the joined text, \<open>S * 200\<close> words of
  the vocabulary joined by single spaces, has at least that length: the result is the first
  \<open>S * 1024\<close> characters of the joined text.
\<close>

theorem generate_readable_text_length:
  assumes "1 \<le> S"
  shows "int (length (generate_readable_text S draw)) \<le> S * 1024
       \<and> (S * 1024 \<le> int (length (join '' '' (random_choices words (S * 200) draw)))
            \<longrightarrow> int (length (generate_readable_text S draw)) = S * 1024)
       \<and> generate_readable_text S draw
            = take (nat (S * 1024)) (join '' '' (random_choices words (S * 200) draw))
       \<and> length (random_choices words (S * 200) draw) = nat (S * 200)
       \<and> set (random_choices words (S * 200) draw) \<subseteq> set words"
proof -
  from assms have pos: "0 \<le> S * 1024" by simp
  have ne: "words \<noteq> []" using words_length by auto
  show ?thesis
    using pos random_choices_subset [OF ne]
    by (auto simp: generate_readable_text_def slice_to_def random_choices_length)
qed

text \<open>One KiB of the word \<^verbatim>\<open>Lorem\<close>: 1199 characters before the cut, 1024 after it.\<close>

theorem generate_readable_text_length_witness:
  "(1::int) \<le> 1
   \<and> 1 * 1024 \<le> int (length (join '' '' (random_choices words (1 * 200) (\<lambda>i. 0))))
   \<and> int (length (generate_readable_text 1 (\<lambda>i. 0))) = 1 * 1024"
proof -
  have w: "random_choices words (1 * 200) (\<lambda>i. 0) = replicate (Suc 199) ''Lorem''"
    by (simp add: random_choices_def words_def map_replicate_const)
  have h: "1 * 1024 \<le> int (length (join '' '' (random_choices words (1 * 200) (\<lambda>i. 0))))"
    unfolding w join_replicate_length by simp
  show ?thesis
    using generate_readable_text_length [of 1 "\<lambda>i. 0"] h by simp
qed

section \<open>Decimal numerals: \<^verbatim>\<open>int\<close> reads what \<^verbatim>\<open>str\<close> writes\<close>

lemma digit_char_cases:
  assumes "d < 10"
  shows "digit_char d \<in> set ''0123456789'' \<and> digit_val (digit_char d) = d"
proof -
  from assms have "d = 0 \<or> d = 1 \<or> d = 2 \<or> d = 3 \<or> d = 4 \<or> d = 5 \<or> d = 6 \<or> d = 7 \<or> d = 8 \<or> d = 9"
    by arith
  then show ?thesis
    by (elim disjE) (simp_all add: digit_char_def digit_val_def)
qed

lemma digit_char_decimal: "d < 10 \<Longrightarrow> is_decimal (digit_char d)"
  using digit_char_cases by (simp add: is_decimal_def)

lemma digit_val_digit_char: "d < 10 \<Longrightarrow> digit_val (digit_char d) = d"
  using digit_char_cases by simp

lemma decimal_plain:
  "is_decimal c \<Longrightarrow> c \<noteq> CHR ''_'' \<and> c \<noteq> CHR ''-'' \<and> c \<noteq> CHR ''+'' \<and> \<not> int_space c"
  by (auto simp: is_decimal_def int_space_def)

lemma str_nat_decimal: "str_nat n \<noteq> [] \<and> list_all is_decimal (str_nat n)"
proof (induction n rule: str_nat.induct)
  case (1 n)
  show ?case
  proof (cases "n < 10")
    case True
    then show ?thesis by (simp add: str_nat.simps [of n] digit_char_decimal)
  next
    case False
    with 1 show ?thesis by (simp add: str_nat.simps [of n] digit_char_decimal)
  qed
qed

lemma digits_value_snoc: "digits_value (ds @ [c]) = 10 * digits_value ds + digit_val c"
  by (simp add: digits_value_def)

lemma digits_value_str_nat: "digits_value (str_nat n) = n"
proof (induction n rule: str_nat.induct)
  case (1 n)
  show ?case
  proof (cases "n < 10")
    case True
    then show ?thesis
      by (simp add: str_nat.simps [of n] digits_value_def digit_val_digit_char)
  next
    case False
    with 1 show ?thesis
      by (simp add: str_nat.simps [of n] digits_value_snoc digit_val_digit_char)
  qed
qed

lemma int_digits_decimal: "ds \<noteq> [] \<Longrightarrow> list_all is_decimal ds \<Longrightarrow> int_digits ds"
  by (induction ds rule: int_digits.induct) (auto dest: decimal_plain)

lemma filter_decimal: "list_all is_decimal ds \<Longrightarrow> filter (\<lambda>c. c \<noteq> CHR ''_'') ds = ds"
  by (induction ds) (auto dest: decimal_plain)

lemma dropWhile_hd: "s \<noteq> [] \<Longrightarrow> \<not> P (hd s) \<Longrightarrow> dropWhile P s = s"
  by (cases s) simp_all

lemma strip_id: "s \<noteq> [] \<Longrightarrow> \<not> int_space (hd s) \<Longrightarrow> \<not> int_space (last s) \<Longrightarrow> strip s = s"
  by (simp add: strip_def dropWhile_hd hd_rev)

lemma list_all_hd_last: "list_all P s \<Longrightarrow> s \<noteq> [] \<Longrightarrow> P (hd s) \<and> P (last s)"
  by (cases s) (auto simp: list_all_iff)

lemma py_int_decimal:
  assumes "ds \<noteq> []" "list_all is_decimal ds" "length ds \<le> max_str_digits"
  shows "py_int ds = Inr (int (digits_value ds))"
    and "py_int (CHR ''-'' # ds) = Inr (- int (digits_value ds))"
proof -
  from list_all_hd_last [OF assms(2,1)]
  have hl: "is_decimal (hd ds)" "is_decimal (last ds)" by simp_all
  then have sp: "\<not> int_space (hd ds)" "\<not> int_space (last ds)"
    and sg: "hd ds \<noteq> CHR ''-''" "hd ds \<noteq> CHR ''+''"
    using decimal_plain by blast+
  have s1: "strip ds = ds" using assms(1) sp by (rule strip_id)
  have s2: "strip (CHR ''-'' # ds) = CHR ''-'' # ds"
    using assms(1) sp by (intro strip_id) (simp_all add: int_space_def)
  obtain c r where ds: "ds = c # r" using assms(1) by (cases ds) auto
  with sg have c: "c \<noteq> CHR ''-''" "c \<noteq> CHR ''+''" by simp_all
  show "py_int ds = Inr (int (digits_value ds))"
    using int_digits_decimal [OF assms(1,2)] filter_decimal [OF assms(2)] c assms(3)
    by (simp add: py_int_def s1) (simp add: ds)
  show "py_int (CHR ''-'' # ds) = Inr (- int (digits_value ds))"
    using int_digits_decimal [OF assms(1,2)] filter_decimal [OF assms(2)] assms(3)
    by (simp add: py_int_def s2)
qed

lemma str_nat_length_le: "n < 10 ^ d \<Longrightarrow> 0 < d \<Longrightarrow> length (str_nat n) \<le> d"
proof (induction n arbitrary: d rule: str_nat.induct)
  case (1 n)
  show ?case
  proof (cases "n < 10")
    case True
    with 1(3) show ?thesis by (simp add: str_nat.simps [of n])
  next
    case False
    from 1(3) obtain d' where d: "d = Suc d'" by (cases d) auto
    from False 1(2) d have "0 < d'" by (cases d') auto
    moreover from 1(2) d have "n div 10 < 10 ^ d'" by (simp add: less_mult_imp_div_less)
    ultimately have "length (str_nat (n div 10)) \<le> d'"
      using 1(1) [OF False] by simp
    with False d show ?thesis by (simp add: str_nat.simps [of n])
  qed
qed

lemma str_nat_length_gt: "10 ^ d \<le> n \<Longrightarrow> d < length (str_nat n)"
proof (induction n arbitrary: d rule: str_nat.induct)
  case (1 n)
  show ?case
  proof (cases "n < 10")
    case True
    have "d = 0"
    proof (cases d)
      case 0
      then show ?thesis .
    next
      case (Suc d')
      have "(1::nat) \<le> 10 ^ d'" by simp
      with Suc have "(10::nat) \<le> 10 ^ d" by simp
      with True 1(2) show ?thesis by simp
    qed
    with True show ?thesis by (simp add: str_nat.simps [of n])
  next
    case False
    show ?thesis
    proof (cases d)
      case 0
      with False show ?thesis by (simp add: str_nat.simps [of n])
    next
      case (Suc d')
      with 1(2) have "10 ^ d' \<le> n div 10" by (simp add: less_eq_div_iff_mult_less_eq)
      then have "d' < length (str_nat (n div 10))"
        using 1(1) [OF False] by simp
      with False Suc show ?thesis by (simp add: str_nat.simps [of n])
    qed
  qed
qed

lemma py_str_small: "\<bar>i\<bar> < 10 ^ max_str_digits \<Longrightarrow> py_str i = Inr (decimal i)"
proof -
  assume "\<bar>i\<bar> < 10 ^ max_str_digits"
  then have "nat \<bar>i\<bar> < 10 ^ max_str_digits"
    by (simp add: nat_less_iff)
  moreover have "0 < max_str_digits"
    by (simp add: max_str_digits_def)
  ultimately have "length (str_nat (nat \<bar>i\<bar>)) \<le> max_str_digits"
    by (rule str_nat_length_le)
  then show ?thesis by (simp add: py_str_def)
qed

lemma py_str_large: "10 ^ max_str_digits \<le> \<bar>i\<bar> \<Longrightarrow> py_str i = Inl ValueError"
proof -
  assume "10 ^ max_str_digits \<le> \<bar>i\<bar>"
  then have "10 ^ max_str_digits \<le> nat \<bar>i\<bar>"
    by (simp add: le_nat_iff)
  then have "max_str_digits < length (str_nat (nat \<bar>i\<bar>))"
    by (rule str_nat_length_gt)
  then show ?thesis by (simp add: py_str_def)
qed

lemma py_int_py_str:
  assumes "py_str k = Inr s"
  shows "py_int s = Inr k"
proof -
  from assms have l: "length (str_nat (nat \<bar>k\<bar>)) \<le> max_str_digits" and s: "s = decimal k"
    by (simp_all add: py_str_def split: if_splits)
  show ?thesis
  proof (cases "k < 0")
    case True
    then have a: "nat \<bar>k\<bar> = nat (- k)" by simp
    have "py_int (CHR ''-'' # str_nat (nat (- k))) = Inr (- int (digits_value (str_nat (nat (- k)))))"
      using str_nat_decimal [of "nat (- k)"] l a by (intro py_int_decimal) simp_all
    with True s show ?thesis
      by (simp add: decimal_def digits_value_str_nat)
  next
    case False
    then have a: "nat \<bar>k\<bar> = nat k" by simp
    have "py_int (str_nat (nat k)) = Inr (int (digits_value (str_nat (nat k))))"
      using str_nat_decimal [of "nat k"] l a by (intro py_int_decimal) simp_all
    with False s show ?thesis
      by (simp add: decimal_def digits_value_str_nat)
  qed
qed

lemma decimal_sign: "(hd (decimal i) = CHR ''-'') = (i < 0)"
proof -
  have "is_decimal (hd (str_nat (nat i)))"
    using str_nat_decimal [of "nat i"] list_all_hd_last by blast
  then have "hd (str_nat (nat i)) \<noteq> CHR ''-''"
    using decimal_plain by blast
  then show ?thesis by (simp add: decimal_def)
qed

lemma decimal_inj:
  assumes "decimal i = decimal j"
  shows "i = j"
proof -
  from assms have sg: "(i < 0) = (j < 0)"
    using decimal_sign [of i] decimal_sign [of j] by simp
  show ?thesis
  proof (cases "i < 0")
    case True
    with sg assms have "str_nat (nat (- i)) = str_nat (nat (- j))"
      by (simp add: decimal_def)
    then have "digits_value (str_nat (nat (- i))) = digits_value (str_nat (nat (- j)))"
      by simp
    with True sg show ?thesis by (simp add: digits_value_str_nat)
  next
    case False
    with sg assms have "str_nat (nat i) = str_nat (nat j)"
      by (simp add: decimal_def)
    then have "digits_value (str_nat (nat i)) = digits_value (str_nat (nat j))"
      by simp
    with False sg show ?thesis by (simp add: digits_value_str_nat)
  qed
qed


section \<open>Bucket discovery\<close>

lemma find_first:
  "\<forall>x\<in>set pre. \<not> P x \<Longrightarrow> P b \<Longrightarrow> find P (pre @ b # post) = Some b"
  by (induction pre) simp_all

lemma lock_filter_loop_eq:
  "lock_filter_loop s3 acc bs =
     (case find (aborts s3) bs of
        None \<Rightarrow> Inr (acc @ filter (lock_enabled s3) bs)
      | Some b \<Rightarrow> (case get_object_lock_configuration s3 b of
                     Raises e \<Rightarrow> Inl e | Response keys \<Rightarrow> Inr []))"
proof (induction bs arbitrary: acc)
  case Nil
  show ?case by simp
next
  case (Cons b bs)
  show ?case
  proof (cases "get_object_lock_configuration s3 b")
    case (Response keys)
    then have "\<not> aborts s3 b" "lock_enabled s3 b = (''ObjectLockConfiguration'' \<in> set keys)"
      by (simp_all add: aborts_def lock_enabled_def)
    with Response show ?thesis
      by (simp add: Cons split: option.splits)
  next
    case (Raises e)
    then have a: "aborts s3 b = (e \<noteq> ClientError ''ObjectLockConfigurationNotFoundError'')"
      and l: "\<not> lock_enabled s3 b"
      by (simp_all add: aborts_def lock_enabled_def)
    show ?thesis
    proof (cases "e = ClientError ''ObjectLockConfigurationNotFoundError''")
      case True
      with Raises a l show ?thesis
        by (simp add: Cons split: option.splits)
    next
      case False
      with Raises a l show ?thesis
        by (cases e) simp_all
    qed
  qed
qed

text \<open>
  C4. Discovery returns the buckets, in listing order, whose query returned a response holding
  \<^verbatim>\<open>ObjectLockConfiguration\<close>, provided no query aborts. A query that raises a
  \<^verbatim>\<open>ClientError\<close> with the code \<^verbatim>\<open>ObjectLockConfigurationNotFoundError\<close> neither aborts nor
  lists the bucket. The first query, in listing order, that raises anything else ends discovery
  with that exception.
\<close>

theorem bucket_discovery:
  "((\<forall>b\<in>set (list_buckets s3). \<not> aborts s3 b) \<longrightarrow>
      buckets_with_object_lock s3 = Inr (filter (lock_enabled s3) (list_buckets s3)))
   \<and> (list_buckets s3 = pre @ b # post \<and> (\<forall>x\<in>set pre. \<not> aborts s3 x) \<and> aborts s3 b \<longrightarrow>
      (\<exists>e. get_object_lock_configuration s3 b = Raises e
           \<and> e \<noteq> ClientError ''ObjectLockConfigurationNotFoundError''
           \<and> buckets_with_object_lock s3 = Inl e))
   \<and> (get_object_lock_configuration s3 n = Raises (ClientError ''ObjectLockConfigurationNotFoundError'')
        \<longrightarrow> \<not> aborts s3 n \<and> \<not> lock_enabled s3 n)
   \<and> (lock_enabled s3 n \<longleftrightarrow>
        (\<exists>keys. get_object_lock_configuration s3 n = Response keys
               \<and> ''ObjectLockConfiguration'' \<in> set keys))
   \<and> (aborts s3 n \<longleftrightarrow>
        (\<exists>e. get_object_lock_configuration s3 n = Raises e
            \<and> e \<noteq> ClientError ''ObjectLockConfigurationNotFoundError''))"
proof (intro conjI impI)
  assume "\<forall>b\<in>set (list_buckets s3). \<not> aborts s3 b"
  then have "find (aborts s3) (list_buckets s3) = None"
    by (simp add: find_None_iff)
  then show "buckets_with_object_lock s3 = Inr (filter (lock_enabled s3) (list_buckets s3))"
    by (simp add: buckets_with_object_lock_def lock_filter_loop_eq)
next
  assume a: "list_buckets s3 = pre @ b # post \<and> (\<forall>x\<in>set pre. \<not> aborts s3 x) \<and> aborts s3 b"
  then have f: "find (aborts s3) (list_buckets s3) = Some b"
    by (simp add: find_first)
  from a obtain e where e: "get_object_lock_configuration s3 b = Raises e"
    "e \<noteq> ClientError ''ObjectLockConfigurationNotFoundError''"
    by (auto simp: aborts_def split: lock_reply.splits)
  have "buckets_with_object_lock s3 = Inl e"
    by (simp add: buckets_with_object_lock_def lock_filter_loop_eq f e)
  with e show "\<exists>e. get_object_lock_configuration s3 b = Raises e
           \<and> e \<noteq> ClientError ''ObjectLockConfigurationNotFoundError''
           \<and> buckets_with_object_lock s3 = Inl e"
    by blast
next
  assume "get_object_lock_configuration s3 n = Raises (ClientError ''ObjectLockConfigurationNotFoundError'')"
  then show "\<not> aborts s3 n" "\<not> lock_enabled s3 n"
    by (simp_all add: aborts_def lock_enabled_def)
next
  show "lock_enabled s3 n \<longleftrightarrow>
        (\<exists>keys. get_object_lock_configuration s3 n = Response keys
               \<and> ''ObjectLockConfiguration'' \<in> set keys)"
    by (simp add: lock_enabled_def split: lock_reply.splits)
next
  show "aborts s3 n \<longleftrightarrow>
        (\<exists>e. get_object_lock_configuration s3 n = Raises e
            \<and> e \<noteq> ClientError ''ObjectLockConfigurationNotFoundError'')"
    by (simp add: aborts_def split: lock_reply.splits)
qed


text \<open>
  In the first example store \<^verbatim>\<open>vault\<close> and \<^verbatim>\<open>archive\<close> are found; in the second the denied
  query for \<^verbatim>\<open>plain\<close> ends discovery.
\<close>

theorem bucket_discovery_witness:
  "buckets_with_object_lock example_store = Inr [''vault'', ''archive'']
   \<and> buckets_with_object_lock denying_store = Inl (ClientError ''AccessDenied'')
   \<and> \<not> lock_enabled example_store ''logs''
   \<and> lock_enabled example_store ''vault''"
proof -
  have a: "\<forall>b\<in>set (list_buckets example_store). \<not> aborts example_store b"
    by (simp add: example_store_def aborts_def)
  have f: "filter (lock_enabled example_store) (list_buckets example_store) = [''vault'', ''archive'']"
    by (simp add: example_store_def lock_enabled_def)
  have l: "list_buckets denying_store = [''logs'', ''vault''] @ ''plain'' # [''archive'']"
    by (simp add: denying_store_def)
  have p: "\<forall>x\<in>set [''logs'', ''vault'']. \<not> aborts denying_store x"
    by (simp add: denying_store_def aborts_def)
  have q: "aborts denying_store ''plain''"
    by (simp add: denying_store_def aborts_def)
  have g: "get_object_lock_configuration denying_store ''plain'' = Raises (ClientError ''AccessDenied'')"
    by (simp add: denying_store_def)
  have n: "get_object_lock_configuration example_store ''logs''
             = Raises (ClientError ''ObjectLockConfigurationNotFoundError'')"
    by (simp add: example_store_def)
  have v: "get_object_lock_configuration example_store ''vault''
             = Response [''ResponseMetadata'', ''ObjectLockConfiguration'']"
    by (simp add: example_store_def)
  from bucket_discovery [of example_store "[]" "''logs''" "[]" "''logs''"] a f n
  have 1: "buckets_with_object_lock example_store = Inr [''vault'', ''archive'']"
    "\<not> lock_enabled example_store ''logs''"
    by simp_all
  from bucket_discovery [of example_store "[]" "''logs''" "[]" "''vault''"] v
  have 2: "lock_enabled example_store ''vault''"
    by simp
  from bucket_discovery [of denying_store "[''logs'', ''vault'']" "''plain''" "[''archive'']" "''plain''"] l p q g
  have 3: "buckets_with_object_lock denying_store = Inl (ClientError ''AccessDenied'')"
    by auto
  from 1 2 3 show ?thesis by simp
qed

section \<open>Bucket selection\<close>

lemma py_input_line:
  "stdin c = line # rest \<Longrightarrow> py_input prompt c = (Inr line, (py_write prompt c)\<lparr>stdin := rest\<rparr>)"
  by (simp add: py_input_def)

lemma select_bucket_line:
  assumes "stdin c = line # rest" "py_int line = Inr k"
  shows "select_bucket locked c =
     (let c1 = (py_write (CHR 0x0A # ''Enter the number of the bucket with ObjectLock you want to use: '') c)
                 \<lparr>stdin := rest\<rparr>
      in case py_index locked (k - 1) of
           Inl e \<Rightarrow> (Inl e, c1)
         | Inr bucket_name \<Rightarrow> (Inr bucket_name, py_print (''Selected bucket: '' @ bucket_name) c1))"
  using assms by (simp add: select_bucket_def py_input_line Let_def)

text \<open>
  C9. The selection is 1-based: when the line typed reads as the integer \<open>k\<close> with
  \<open>1 \<le> k \<le> len(locked)\<close>, the \<open>k\<close>-th bucket of the list is selected, that is the one
  at index \<open>k - 1\<close>. The decimal numeral of \<open>k\<close>, which is \<open>str(k)\<close> for a \<open>k\<close> of at most
  4300 digits, reads as \<open>k\<close>. With three buckets listed, typing \<^verbatim>\<open>2\<close> selects the second.
\<close>

theorem selection_is_one_based:
  "(stdin c = line # rest \<and> py_int line = Inr k \<and> 1 \<le> k \<and> k \<le> int (length locked) \<longrightarrow>
      fst (select_bucket locked c) = Inr (locked ! (nat k - 1)))
   \<and> (\<bar>k\<bar> < 10 ^ max_str_digits \<longrightarrow> py_str k = Inr (decimal k) \<and> py_int (decimal k) = Inr k)
   \<and> fst (select_bucket [b1, b2, b3] (c\<lparr>stdin := ''2'' # rest\<rparr>)) = Inr b2"
proof (intro conjI impI)
  assume a: "stdin c = line # rest \<and> py_int line = Inr k \<and> 1 \<le> k \<and> k \<le> int (length locked)"
  then have "py_index locked (k - 1) = Inr (locked ! (nat k - 1))"
    by (simp add: py_index_def nat_diff_distrib)
  with a show "fst (select_bucket locked c) = Inr (locked ! (nat k - 1))"
    by (simp add: select_bucket_line [of c line rest k])
next
  assume "\<bar>k\<bar> < 10 ^ max_str_digits"
  then have s: "py_str k = Inr (decimal k)"
    by (rule py_str_small)
  then show "py_str k = Inr (decimal k)" "py_int (decimal k) = Inr k"
    by (simp_all add: py_int_py_str)
next
  have "py_int ''2'' = Inr 2"
    by (simp add: py_int_def strip_def int_space_def is_decimal_def digits_value_def digit_val_def max_str_digits_def)
  then show "fst (select_bucket [b1, b2, b3] (c\<lparr>stdin := ''2'' # rest\<rparr>)) = Inr b2"
    by (simp add: select_bucket_line [of _ "''2''" rest 2] py_index_def)
qed

text \<open>Typing \<^verbatim>\<open>3\<close> with three buckets listed selects the third.\<close>

theorem selection_is_one_based_witness:
  "fst (select_bucket [''vault'', ''archive'', ''ledger''] (typed [''3''])) = Inr ''ledger''"
proof -
  have i: "py_int ''3'' = Inr 3"
    by (simp add: py_int_def strip_def int_space_def is_decimal_def digits_value_def digit_val_def max_str_digits_def)
  have s: "stdin (typed [''3'']) = ''3'' # []"
    by (simp add: typed_def)
  from selection_is_one_based [of "typed [''3'']" "''3''" "[]" 3 "[''vault'', ''archive'', ''ledger'']"] i s
  show ?thesis by simp
qed

text \<open>
  C10. With \<open>n\<close> buckets listed, a typed integer \<open>k\<close> with \<open>1 - n \<le> k \<le> 0\<close> raises
  nothing: the index \<open>k - 1\<close> is negative and counts from the end, so the bucket at
  position \<open>n + k\<close> (counting from one) is selected. Typing \<^verbatim>\<open>0\<close> selects the last bucket.
\<close>

theorem selection_wraps_around:
  "(stdin c = line # rest \<and> py_int line = Inr k \<and> 1 - int (length locked) \<le> k \<and> k \<le> 0 \<longrightarrow>
      fst (select_bucket locked c) = Inr (locked ! (nat (int (length locked) + k) - 1)))
   \<and> (stdin c = line # rest \<and> py_int line = Inr 0 \<and> locked \<noteq> [] \<longrightarrow>
      fst (select_bucket locked c) = Inr (last locked))
   \<and> py_int ''0'' = Inr 0"
proof (intro conjI impI)
  assume a: "stdin c = line # rest \<and> py_int line = Inr k \<and> 1 - int (length locked) \<le> k \<and> k \<le> 0"
  then have "py_index locked (k - 1) = Inr (locked ! (nat (int (length locked) + k) - 1))"
    by (simp add: py_index_def nat_diff_distrib algebra_simps)
  with a show "fst (select_bucket locked c) = Inr (locked ! (nat (int (length locked) + k) - 1))"
    by (simp add: select_bucket_line [of c line rest k])
next
  assume a: "stdin c = line # rest \<and> py_int line = Inr 0 \<and> locked \<noteq> []"
  then have "nat (int (length locked) - 1) = length locked - 1"
    by arith
  with a have "py_index locked (0 - 1) = Inr (last locked)"
    by (simp add: py_index_def last_conv_nth)
  with a show "fst (select_bucket locked c) = Inr (last locked)"
    by (simp add: select_bucket_line [of c line rest 0])
next
  show "py_int ''0'' = Inr 0"
    by (simp add: py_int_def strip_def int_space_def is_decimal_def digits_value_def digit_val_def max_str_digits_def)
qed

text \<open>With three buckets listed, \<^verbatim>\<open>-1\<close> selects the second and \<^verbatim>\<open>0\<close> the third.\<close>

theorem selection_wraps_around_witness:
  "fst (select_bucket [''vault'', ''archive'', ''ledger''] (typed [''-1''])) = Inr ''archive''
   \<and> fst (select_bucket [''vault'', ''archive'', ''ledger''] (typed [''0''])) = Inr ''ledger''"
proof -
  have i: "py_int ''-1'' = Inr (- 1)" "py_int ''0'' = Inr 0"
    by (simp_all add: py_int_def strip_def int_space_def is_decimal_def digits_value_def digit_val_def max_str_digits_def)
  have s: "stdin (typed [''-1'']) = ''-1'' # []" "stdin (typed [''0'']) = ''0'' # []"
    by (simp_all add: typed_def)
  from selection_wraps_around [of "typed [''-1'']" "''-1''" "[]" "- 1" "[''vault'', ''archive'', ''ledger'']"] i s
  have 1: "fst (select_bucket [''vault'', ''archive'', ''ledger''] (typed [''-1''])) = Inr ''archive''"
    by simp
  from selection_wraps_around [of "typed [''0'']" "''0''" "[]" 0 "[''vault'', ''archive'', ''ledger'']"] i s
  have 2: "fst (select_bucket [''vault'', ''archive'', ''ledger''] (typed [''0''])) = Inr ''ledger''"
    by simp
  from 1 2 show ?thesis by simp
qed

section \<open>Evaluating numerals\<close>

lemmas int_eval =
  py_int_def strip_def int_space_def is_decimal_def digits_value_def digit_val_def max_str_digits_def

lemmas str_eval = py_str_def decimal_def max_str_digits_def str_nat.simps digit_char_def

lemma below_limit: "\<bar>i::int\<bar> \<le> 10000 \<Longrightarrow> \<bar>i\<bar> < 10 ^ max_str_digits"
proof -
  assume a: "\<bar>i\<bar> \<le> 10000"
  have "(10::int) ^ 5 \<le> 10 ^ max_str_digits"
    by (rule power_increasing) (simp_all add: max_str_digits_def)
  moreover have "(10::int) ^ 5 = 100000"
    by simp
  ultimately show ?thesis
    using a by linarith
qed


section \<open>Object keys\<close>

lemma submit_loop_ok:
  "\<forall>i\<in>set indices. \<bar>i\<bar> < 10 ^ max_str_digits \<Longrightarrow>
   submit_loop s3 rnd bucket_name retention prefix indices futures
     = (None, futures @ map (\<lambda>i. create_object s3 bucket_name (prefix @ decimal i @ ''.txt'')
                                   retention (rnd i)) indices)"
  by (induction indices arbitrary: futures) (simp_all add: py_str_small)

lemma submit_loop_stop:
  "\<forall>i\<in>set before. \<bar>i\<bar> < 10 ^ max_str_digits \<Longrightarrow> 10 ^ max_str_digits \<le> \<bar>j\<bar> \<Longrightarrow>
   submit_loop s3 rnd bucket_name retention prefix (before @ j # after) futures
     = (Some ValueError, futures @ map (\<lambda>i. create_object s3 bucket_name (prefix @ decimal i @ ''.txt'')
                                   retention (rnd i)) before)"
  by (induction before arbitrary: futures) (simp_all add: py_str_small py_str_large)

lemma key_inj: "inj_on (\<lambda>i. prefix @ decimal i @ ''.txt'') A"
  by (rule inj_onI) (simp add: decimal_inj)

lemma keys_of_tasks:
  "map (\<lambda>t. Key (request t))
     (map (\<lambda>i. create_object s3 bucket_name (prefix @ decimal i @ ''.txt'') retention (rnd i)) indices)
   = map (\<lambda>i. prefix @ decimal i @ ''.txt'') indices"
  by (simp add: create_object_def Let_def comp_def)

lemma submit_all_within:
  assumes "0 \<le> N" "N + C \<le> 10 ^ max_str_digits"
  shows "submit_all s3 rnd bucket_name retention P N C
     = (None, map (\<lambda>i. create_object s3 bucket_name (P @ decimal i @ ''.txt'') retention (rnd i))
                (py_range N (N + C)))"
proof -
  from assms have "\<forall>i\<in>set (py_range N (N + C)). \<bar>i\<bar> < 10 ^ max_str_digits"
    by (auto simp: py_range_def)
  then show ?thesis
    by (simp add: submit_all_def submit_loop_ok)
qed

lemma submit_all_beyond:
  assumes "0 \<le> N" "N < 10 ^ max_str_digits" "10 ^ max_str_digits < N + C"
  shows "submit_all s3 rnd bucket_name retention P N C
     = (Some ValueError,
        map (\<lambda>i. create_object s3 bucket_name (P @ decimal i @ ''.txt'') retention (rnd i))
          (py_range N (10 ^ max_str_digits)))"
proof -
  let ?L = "(10::int) ^ max_str_digits"
  from assms have "[N..N + C - 1] = [N..?L - 1] @ ?L # [?L + 1..N + C - 1]"
    by (intro upto_split3) simp_all
  moreover from assms have "\<forall>i\<in>set [N..?L - 1]. \<bar>i\<bar> < ?L"
    by auto
  moreover have "?L \<le> \<bar>?L\<bar>"
    by simp
  ultimately show ?thesis
    by (simp only: submit_all_def py_range_def submit_loop_stop append_Nil)
qed

text \<open>
  C3, as the script has it. For an accepted start index \<open>N \<ge> 0\<close> and count \<open>C\<close> with
  \<open>N + C \<le> 10^4300\<close> every index is formatted, and the keys of the tasks submitted are
  \<open>P + str(i) + ".txt"\<close> for \<open>i\<close> from \<open>N\<close> to \<open>N + C - 1\<close> in this order: as a set the image
  of that interval, pairwise distinct, \<open>C\<close> of them. When the indices reach \<open>10^4300\<close> the
  loop raises \<^verbatim>\<open>ValueError\<close> at that index, after submitting the keys of the indices below.
\<close>

theorem object_keys:
  "(0 \<le> N \<and> N + C \<le> 10 ^ max_str_digits \<longrightarrow>
      fst (submit_all s3 rnd bucket_name retention P N C) = None
    \<and> map (\<lambda>t. Key (request t)) (snd (submit_all s3 rnd bucket_name retention P N C))
        = map (\<lambda>i. P @ decimal i @ ''.txt'') (py_range N (N + C))
    \<and> set (map (\<lambda>t. Key (request t)) (snd (submit_all s3 rnd bucket_name retention P N C)))
        = (\<lambda>i. P @ decimal i @ ''.txt'') ` {N ..< N + C}
    \<and> distinct (map (\<lambda>t. Key (request t)) (snd (submit_all s3 rnd bucket_name retention P N C)))
    \<and> length (snd (submit_all s3 rnd bucket_name retention P N C)) = nat C
    \<and> (N \<le> i \<and> i < N + C \<longrightarrow> py_str i = Inr (decimal i)))
   \<and> (0 \<le> N \<and> N < 10 ^ max_str_digits \<and> 10 ^ max_str_digits < N + C \<longrightarrow>
      fst (submit_all s3 rnd bucket_name retention P N C) = Some ValueError
    \<and> map (\<lambda>t. Key (request t)) (snd (submit_all s3 rnd bucket_name retention P N C))
        = map (\<lambda>i. P @ decimal i @ ''.txt'') (py_range N (10 ^ max_str_digits))
    \<and> py_str (10 ^ max_str_digits) = Inl ValueError)"
proof (intro conjI impI)
  assume a: "0 \<le> N \<and> N + C \<le> 10 ^ max_str_digits"
  then have s: "submit_all s3 rnd bucket_name retention P N C
     = (None, map (\<lambda>i. create_object s3 bucket_name (P @ decimal i @ ''.txt'') retention (rnd i))
                (py_range N (N + C)))"
    by (simp add: submit_all_within)
  show "fst (submit_all s3 rnd bucket_name retention P N C) = None"
    by (simp add: s)
  show k: "map (\<lambda>t. Key (request t)) (snd (submit_all s3 rnd bucket_name retention P N C))
        = map (\<lambda>i. P @ decimal i @ ''.txt'') (py_range N (N + C))"
    by (simp only: s snd_conv keys_of_tasks)
  have r: "set (py_range N (N + C)) = {N ..< N + C}"
    by (auto simp: py_range_def)
  show "set (map (\<lambda>t. Key (request t)) (snd (submit_all s3 rnd bucket_name retention P N C)))
        = (\<lambda>i. P @ decimal i @ ''.txt'') ` {N ..< N + C}"
    by (simp only: k set_map r)
  show "distinct (map (\<lambda>t. Key (request t)) (snd (submit_all s3 rnd bucket_name retention P N C)))"
    by (simp only: k) (simp add: distinct_map py_range_def key_inj)
  show "length (snd (submit_all s3 rnd bucket_name retention P N C)) = nat C"
    by (simp add: s py_range_def)
  {
    assume "N \<le> i \<and> i < N + C"
    with a have "\<bar>i\<bar> < 10 ^ max_str_digits" by simp
    then show "py_str i = Inr (decimal i)" by (rule py_str_small)
  }
next
  assume a: "0 \<le> N \<and> N < 10 ^ max_str_digits \<and> 10 ^ max_str_digits < N + C"
  then have s: "submit_all s3 rnd bucket_name retention P N C
     = (Some ValueError,
        map (\<lambda>i. create_object s3 bucket_name (P @ decimal i @ ''.txt'') retention (rnd i))
          (py_range N (10 ^ max_str_digits)))"
    by (simp add: submit_all_beyond)
  show "fst (submit_all s3 rnd bucket_name retention P N C) = Some ValueError"
    by (simp add: s)
  show "map (\<lambda>t. Key (request t)) (snd (submit_all s3 rnd bucket_name retention P N C))
        = map (\<lambda>i. P @ decimal i @ ''.txt'') (py_range N (10 ^ max_str_digits))"
    by (simp only: s snd_conv keys_of_tasks)
  show "py_str (10 ^ max_str_digits) = Inl ValueError"
    by (rule py_str_large) simp
qed

text \<open>
  The keys for the prefix \<^verbatim>\<open>test-\<close>, the start 10 and the count 5; and the start
  \<open>10^4300 - 1\<close> with the count 2, which ends at the second index.
\<close>

theorem object_keys_witness:
  "map (\<lambda>t. Key (request t))
     (snd (submit_all example_store fixed_draws ''vault'' ''2024-12-31T00:00:00Z'' ''test-'' 10 5))
     = [''test-10.txt'', ''test-11.txt'', ''test-12.txt'', ''test-13.txt'', ''test-14.txt'']
   \<and> fst (submit_all example_store fixed_draws ''vault'' ''2024-12-31T00:00:00Z'' ''test-''
            (10 ^ max_str_digits - 1) 2) = Some ValueError"
proof -
  have b: "(0::int) \<le> 10 \<and> (10::int) + 5 \<le> 10 ^ max_str_digits"
    using below_limit [of 15] by simp
  have c: "(0::int) \<le> 10 ^ max_str_digits - 1 \<and> (10::int) ^ max_str_digits - 1 < 10 ^ max_str_digits
      \<and> (10::int) ^ max_str_digits < 10 ^ max_str_digits - 1 + 2"
    by simp
  from object_keys [of 10 5 example_store fixed_draws "''vault''" "''2024-12-31T00:00:00Z''" "''test-''"] b
  have 1: "map (\<lambda>t. Key (request t))
     (snd (submit_all example_store fixed_draws ''vault'' ''2024-12-31T00:00:00Z'' ''test-'' 10 5))
     = [''test-10.txt'', ''test-11.txt'', ''test-12.txt'', ''test-13.txt'', ''test-14.txt'']"
    by (simp add: py_range_def upto_rec_numeral decimal_def str_nat.simps digit_char_def)
  from object_keys [of "10 ^ max_str_digits - 1" 2 example_store fixed_draws "''vault''"
      "''2024-12-31T00:00:00Z''" "''test-''"] c
  have 2: "fst (submit_all example_store fixed_draws ''vault'' ''2024-12-31T00:00:00Z'' ''test-''
            (10 ^ max_str_digits - 1) 2) = Some ValueError"
    by blast
  from 1 2 show ?thesis by simp
qed

lemma digits_value_nines: "int (digits_value (replicate d CHR ''9'')) = 10 ^ d - 1"
proof (induction d)
  case 0
  show ?case by (simp add: digits_value_def)
next
  case (Suc d)
  have "replicate (Suc d) CHR ''9'' = replicate d CHR ''9'' @ [CHR ''9'']"
    by (simp add: replicate_append_same)
  then have "int (digits_value (replicate (Suc d) CHR ''9''))
      = 10 * int (digits_value (replicate d CHR ''9'')) + 9"
    by (simp only: digits_value_snoc) (simp add: digit_val_def)
  with Suc show ?case by simp
qed

text \<open>
  C3 as the claim states it fails. The line of 4300 nines is accepted as a start index
  and reads as \<open>10^4300 - 1\<close>; with the count 2 the script formats that index, submits its
  key, and raises \<^verbatim>\<open>ValueError\<close> on formatting the next one, \<open>10^4300\<close>: one key is
  submitted, not two.
\<close>

theorem object_keys_counterexample:
  "isdigit (replicate max_str_digits CHR ''9'')
   \<and> py_int (replicate max_str_digits CHR ''9'') = Inr (10 ^ max_str_digits - 1)
   \<and> fst (submit_all example_store fixed_draws ''vault'' ''2024-12-31T00:00:00Z'' ''test-''
            (10 ^ max_str_digits - 1) 2) = Some ValueError
   \<and> length (snd (submit_all example_store fixed_draws ''vault'' ''2024-12-31T00:00:00Z'' ''test-''
            (10 ^ max_str_digits - 1) 2)) = 1"
proof -
  have d: "list_all is_decimal (replicate max_str_digits CHR ''9'')"
    by (simp add: list_all_iff is_decimal_def)
  then have g: "list_all is_digit_char (replicate max_str_digits CHR ''9'')"
    by (simp add: list_all_iff is_digit_char_def)
  have n: "replicate max_str_digits CHR ''9'' \<noteq> []"
    by (simp add: max_str_digits_def)
  have 1: "isdigit (replicate max_str_digits CHR ''9'')"
    using g n by (simp add: isdigit_def)
  have 2: "py_int (replicate max_str_digits CHR ''9'') = Inr (10 ^ max_str_digits - 1)"
    using py_int_decimal(1) [OF n d] by (simp add: digits_value_nines)
  have s: "submit_all example_store fixed_draws ''vault'' ''2024-12-31T00:00:00Z'' ''test-''
            (10 ^ max_str_digits - 1) 2
     = (Some ValueError,
        map (\<lambda>i. create_object example_store ''vault'' (''test-'' @ decimal i @ ''.txt'')
                   ''2024-12-31T00:00:00Z'' (fixed_draws i))
          (py_range (10 ^ max_str_digits - 1) (10 ^ max_str_digits)))"
    by (rule submit_all_beyond) simp_all
  have r: "py_range ((10::int) ^ max_str_digits - 1) (10 ^ max_str_digits) = [10 ^ max_str_digits - 1]"
    by (simp add: py_range_def)
  from 1 2 s r show ?thesis by simp
qed


section \<open>Upload tasks\<close>

lemma random_size_kb_draw: "random_size_kb rnd = 1 + int (size_draw rnd mod 1024)"
  by (simp add: random_size_kb_def randint_def)

lemma random_size_kb_range: "1 \<le> random_size_kb rnd \<and> random_size_kb rnd \<le> 1024"
proof -
  have "size_draw rnd mod 1024 < 1024" by simp
  then show ?thesis
    unfolding random_size_kb_draw by simp
qed

lemma random_size_kb_onto:
  "1 \<le> k \<Longrightarrow> k \<le> 1024 \<Longrightarrow> random_size_kb (rnd\<lparr>size_draw := nat (k - 1)\<rparr>) = k"
  by (simp add: random_size_kb_draw)

lemma submit_loop_tasks:
  "t \<in> set (snd (submit_loop s3 rnd bucket_name retention prefix indices futures)) \<Longrightarrow>
   t \<in> set futures
   \<or> (\<exists>i\<in>set indices. py_str i = Inr (decimal i)
        \<and> t = create_object s3 bucket_name (prefix @ decimal i @ ''.txt'') retention (rnd i))"
proof (induction indices arbitrary: futures)
  case Nil
  then show ?case by simp
next
  case (Cons i rest)
  show ?case
  proof (cases "py_str i")
    case (Inl e)
    with Cons.prems show ?thesis by simp
  next
    case (Inr digits)
    then have d: "digits = decimal i"
      by (simp add: py_str_def split: if_splits)
    from Cons.prems Inr
    have "t \<in> set (snd (submit_loop s3 rnd bucket_name retention prefix rest
        (futures @ [create_object s3 bucket_name (prefix @ digits @ ''.txt'') retention (rnd i)])))"
      by simp
    from Cons.IH [OF this] Inr d show ?thesis
      by auto
  qed
qed

text \<open>
  C5. Every task's \<^verbatim>\<open>put_object\<close> call names the selected bucket, the mode
  \<^verbatim>\<open>GOVERNANCE\<close> and the accepted retention string; its key is that of an index \<open>i\<close> of the
  range and its body is the text generated for the size drawn for that task. The size is
  \<^verbatim>\<open>randint(1, 1024)\<close> of the task's draw: one plus the draw modulo 1024, hence between 1
  and 1024, and every size from 1 to 1024 is the size of some draw. For the retention
  \<^verbatim>\<open>2024-12-31T00:00:00Z\<close>, the prefix \<^verbatim>\<open>test-\<close>, the start 10 and the count 5 the loop
  raises nothing and the keys are \<^verbatim>\<open>test-10.txt\<close> to \<^verbatim>\<open>test-14.txt\<close>, each with that mode
  and date.
\<close>

theorem upload_requests:
  "(\<forall>t\<in>set (snd (submit_all s3 rnd bucket_name retention prefix start_index num_objects)).
       Bucket (request t) = bucket_name
     \<and> ObjectLockMode (request t) = ''GOVERNANCE''
     \<and> ObjectLockRetainUntilDate (request t) = retention
     \<and> raised t = put_object s3 (request t)
     \<and> (\<exists>i. start_index \<le> i \<and> i < start_index + num_objects
            \<and> Key (request t) = prefix @ decimal i @ ''.txt''
            \<and> Body (request t) = generate_readable_text (random_size_kb (rnd i)) (word_draw (rnd i))))
   \<and> random_size_kb r = randint 1 1024 (size_draw r)
   \<and> random_size_kb r = 1 + int (size_draw r mod 1024)
   \<and> 1 \<le> random_size_kb r \<and> random_size_kb r \<le> 1024
   \<and> (1 \<le> k \<and> k \<le> 1024 \<longrightarrow> random_size_kb (r\<lparr>size_draw := nat (k - 1)\<rparr>) = k)
   \<and> fst (submit_all s3 rnd bucket_name ''2024-12-31T00:00:00Z'' ''test-'' 10 5) = None
   \<and> map (\<lambda>t. (Key (request t), ObjectLockMode (request t), ObjectLockRetainUntilDate (request t)))
        (snd (submit_all s3 rnd bucket_name ''2024-12-31T00:00:00Z'' ''test-'' 10 5))
      = [(''test-10.txt'', ''GOVERNANCE'', ''2024-12-31T00:00:00Z''),
         (''test-11.txt'', ''GOVERNANCE'', ''2024-12-31T00:00:00Z''),
         (''test-12.txt'', ''GOVERNANCE'', ''2024-12-31T00:00:00Z''),
         (''test-13.txt'', ''GOVERNANCE'', ''2024-12-31T00:00:00Z''),
         (''test-14.txt'', ''GOVERNANCE'', ''2024-12-31T00:00:00Z'')]"
proof (intro conjI)
  show "\<forall>t\<in>set (snd (submit_all s3 rnd bucket_name retention prefix start_index num_objects)).
       Bucket (request t) = bucket_name
     \<and> ObjectLockMode (request t) = ''GOVERNANCE''
     \<and> ObjectLockRetainUntilDate (request t) = retention
     \<and> raised t = put_object s3 (request t)
     \<and> (\<exists>i. start_index \<le> i \<and> i < start_index + num_objects
            \<and> Key (request t) = prefix @ decimal i @ ''.txt''
            \<and> Body (request t) = generate_readable_text (random_size_kb (rnd i)) (word_draw (rnd i)))"
  proof
    fix t
    assume "t \<in> set (snd (submit_all s3 rnd bucket_name retention prefix start_index num_objects))"
    then obtain i where i: "i \<in> set (py_range start_index (start_index + num_objects))"
      and t: "t = create_object s3 bucket_name (prefix @ decimal i @ ''.txt'') retention (rnd i)"
      unfolding submit_all_def using submit_loop_tasks by fastforce
    from i have "start_index \<le> i \<and> i < start_index + num_objects"
      by (auto simp: py_range_def)
    with t show "Bucket (request t) = bucket_name
     \<and> ObjectLockMode (request t) = ''GOVERNANCE''
     \<and> ObjectLockRetainUntilDate (request t) = retention
     \<and> raised t = put_object s3 (request t)
     \<and> (\<exists>i. start_index \<le> i \<and> i < start_index + num_objects
            \<and> Key (request t) = prefix @ decimal i @ ''.txt''
            \<and> Body (request t) = generate_readable_text (random_size_kb (rnd i)) (word_draw (rnd i)))"
      by (auto simp: create_object_def Let_def)
  qed
  show "random_size_kb r = randint 1 1024 (size_draw r)"
    by (simp add: random_size_kb_def)
  show "random_size_kb r = 1 + int (size_draw r mod 1024)"
    by (rule random_size_kb_draw)
  show "1 \<le> random_size_kb r" "random_size_kb r \<le> 1024"
    using random_size_kb_range by simp_all
  show "1 \<le> k \<and> k \<le> 1024 \<longrightarrow> random_size_kb (r\<lparr>size_draw := nat (k - 1)\<rparr>) = k"
    by (simp add: random_size_kb_onto)
  have b: "(0::int) \<le> 10" "(10::int) + 5 \<le> 10 ^ max_str_digits"
    using below_limit [of 15] by simp_all
  note s = submit_all_within [OF b, of s3 rnd bucket_name "''2024-12-31T00:00:00Z''" "''test-''"]
  show "fst (submit_all s3 rnd bucket_name ''2024-12-31T00:00:00Z'' ''test-'' 10 5) = None"
    by (simp add: s)
  show "map (\<lambda>t. (Key (request t), ObjectLockMode (request t), ObjectLockRetainUntilDate (request t)))
        (snd (submit_all s3 rnd bucket_name ''2024-12-31T00:00:00Z'' ''test-'' 10 5))
      = [(''test-10.txt'', ''GOVERNANCE'', ''2024-12-31T00:00:00Z''),
         (''test-11.txt'', ''GOVERNANCE'', ''2024-12-31T00:00:00Z''),
         (''test-12.txt'', ''GOVERNANCE'', ''2024-12-31T00:00:00Z''),
         (''test-13.txt'', ''GOVERNANCE'', ''2024-12-31T00:00:00Z''),
         (''test-14.txt'', ''GOVERNANCE'', ''2024-12-31T00:00:00Z'')]"
    by (simp add: s create_object_def Let_def py_range_def upto_rec_numeral
        decimal_def str_nat.simps digit_char_def)
qed

text \<open>
  Two tasks of the example store, both in governance mode until the given date; the draw 0
  gives the size 1 and the draw 1023 the size 1024.
\<close>

theorem upload_requests_witness:
  "map (\<lambda>t. ObjectLockMode (request t))
     (snd (submit_all example_store fixed_draws ''vault'' ''2024-12-31T00:00:00Z'' ''test-'' 10 2))
     = [''GOVERNANCE'', ''GOVERNANCE'']
   \<and> map (\<lambda>t. ObjectLockRetainUntilDate (request t))
     (snd (submit_all example_store fixed_draws ''vault'' ''2024-12-31T00:00:00Z'' ''test-'' 10 2))
     = [''2024-12-31T00:00:00Z'', ''2024-12-31T00:00:00Z'']
   \<and> random_size_kb (fixed_draws 10) = 1
   \<and> random_size_kb ((fixed_draws 10)\<lparr>size_draw := nat (1024 - 1)\<rparr>) = 1024"
proof -
  have b: "(0::int) \<le> 10" "(10::int) + 2 \<le> 10 ^ max_str_digits"
    using below_limit [of 12] by simp_all
  have "length (snd (submit_all example_store fixed_draws ''vault'' ''2024-12-31T00:00:00Z'' ''test-'' 10 2)) = 2"
    by (simp add: submit_all_within [OF b] py_range_def)
  then obtain t1 t2 where
    s: "snd (submit_all example_store fixed_draws ''vault'' ''2024-12-31T00:00:00Z'' ''test-'' 10 2) = [t1, t2]"
    by (auto simp: length_Suc_conv numeral_2_eq_2)
  have k: "size_draw (fixed_draws 10) = 0"
    by (simp add: fixed_draws_def)
  from upload_requests [of example_store fixed_draws "''vault''" "''2024-12-31T00:00:00Z''" "''test-''" 10 2
      "fixed_draws 10" 1024] s k
  show ?thesis by simp
qed


section \<open>Waiting for the uploads\<close>

lemma wait_results_ok: "(wait_results fs = Inr ()) = (\<forall>t\<in>set fs. raised t = None)"
  by (induction fs) (auto split: option.splits)

lemma wait_results_first:
  "\<forall>x\<in>set before. raised x = None \<Longrightarrow> raised t = Some e \<Longrightarrow>
   wait_results (before @ t # after) = Inl e"
  by (induction before) simp_all

lemma first_failure:
  "t \<in> set fs \<Longrightarrow> raised t \<noteq> None \<Longrightarrow>
   \<exists>before t' after e. fs = before @ t' # after \<and> (\<forall>x\<in>set before. raised x = None) \<and> raised t' = Some e"
proof (induction fs)
  case Nil
  then show ?case by simp
next
  case (Cons f fs)
  show ?case
  proof (cases "raised f")
    case (Some e)
    then have "f # fs = [] @ f # fs \<and> (\<forall>x\<in>set []. raised x = None) \<and> raised f = Some e"
      by simp
    then show ?thesis by blast
  next
    case None
    with Cons.prems have "t \<in> set fs" by auto
    from Cons.IH [OF this Cons.prems(2)] obtain before t' after e where
      d: "fs = before @ t' # after" "\<forall>x\<in>set before. raised x = None" "raised t' = Some e"
      by blast
    with None have "f # fs = (f # before) @ t' # after
        \<and> (\<forall>x\<in>set (f # before). raised x = None) \<and> raised t' = Some e"
      by simp
    then show ?thesis by blast
  qed
qed

lemma as_completed_set: "set (as_completed finish fs) = set fs"
proof -
  have "set (as_completed finish fs) = snd ` set (enumerate 0 fs)"
    by (simp add: as_completed_def)
  also have "\<dots> = set (map snd (enumerate 0 fs))"
    by (simp only: set_map)
  also have "\<dots> = set fs"
    by (simp only: map_snd_enumerate)
  finally show ?thesis .
qed

lemma as_completed_length: "length (as_completed finish fs) = length fs"
  by (simp add: as_completed_def)

lemma progress_count:
  "progress fs = replicate (length (filter (\<lambda>t. raised t = None) fs)) CHR ''.''"
  by (induction fs) (simp_all add: progress_def)

lemma progress_all_ok:
  "\<forall>t\<in>set fs. raised t = None \<Longrightarrow> progress fs = replicate (length fs) CHR ''.''"
  by (induction fs) (simp_all add: progress_def)

text \<open>
  C6, as the script has it. When every index was formatted and every submitted task ended
  without an exception, the run returns normally and the last thing written is the summary
  line, after one dot per task. When some task raised, the run ends with the exception of
  the first failed future in the order in which \<^verbatim>\<open>as_completed\<close> yields them; when
  formatting an index raised, it ends with that exception. In both cases one dot per task
  that succeeded is written, and no summary. Whenever a task raised there is such a first
  failed future, and \<^verbatim>\<open>as_completed\<close> yields the futures submitted, each once.
\<close>

theorem upload_outcome:
  "(submit_all s3 rnd bucket_name retention prefix start_index num_objects = (None, fs)
      \<and> (\<forall>t\<in>set fs. raised t = None) \<and> py_str num_objects = Inr digits \<longrightarrow>
      upload_and_report s3 rnd finish bucket_name retention prefix start_index num_objects c
        = (Inr (), c\<lparr>stdout := stdout c @ replicate (length fs) CHR ''.''
                                   @ summary_text digits prefix bucket_name @ [CHR 0x0A]\<rparr>))
   \<and> (submit_all s3 rnd bucket_name retention prefix start_index num_objects = (None, fs)
      \<and> as_completed finish fs = before @ t # after
      \<and> (\<forall>x\<in>set before. raised x = None) \<and> raised t = Some e \<longrightarrow>
      upload_and_report s3 rnd finish bucket_name retention prefix start_index num_objects c
        = (Inl e, c\<lparr>stdout := stdout c
              @ replicate (length (filter (\<lambda>x. raised x = None) fs)) CHR ''.''\<rparr>))
   \<and> (submit_all s3 rnd bucket_name retention prefix start_index num_objects = (Some e', fs) \<longrightarrow>
      upload_and_report s3 rnd finish bucket_name retention prefix start_index num_objects c
        = (Inl e', c\<lparr>stdout := stdout c
              @ replicate (length (filter (\<lambda>x. raised x = None) fs)) CHR ''.''\<rparr>))
   \<and> (u \<in> set fs \<and> raised u \<noteq> None \<longrightarrow>
      (\<exists>before t after e. as_completed finish fs = before @ t # after
           \<and> (\<forall>x\<in>set before. raised x = None) \<and> raised t = Some e))
   \<and> set (as_completed finish fs) = set fs
   \<and> length (as_completed finish fs) = length fs"
proof (intro conjI impI)
  assume a: "submit_all s3 rnd bucket_name retention prefix start_index num_objects = (None, fs)
      \<and> (\<forall>t\<in>set fs. raised t = None) \<and> py_str num_objects = Inr digits"
  then have w: "wait_results (as_completed finish fs) = Inr ()"
    by (simp add: wait_results_ok as_completed_set)
  from a have p: "progress fs = replicate (length fs) CHR ''.''"
    by (simp add: progress_all_ok)
  from a show "upload_and_report s3 rnd finish bucket_name retention prefix start_index num_objects c
        = (Inr (), c\<lparr>stdout := stdout c @ replicate (length fs) CHR ''.''
                                   @ summary_text digits prefix bucket_name @ [CHR 0x0A]\<rparr>)"
    by (simp add: upload_and_report_def w p summary_def py_print_def py_write_def)
next
  assume a: "submit_all s3 rnd bucket_name retention prefix start_index num_objects = (None, fs)
      \<and> as_completed finish fs = before @ t # after
      \<and> (\<forall>x\<in>set before. raised x = None) \<and> raised t = Some e"
  then have w: "wait_results (before @ t # after) = Inl e"
    by (simp add: wait_results_first)
  from a show "upload_and_report s3 rnd finish bucket_name retention prefix start_index num_objects c
        = (Inl e, c\<lparr>stdout := stdout c
              @ replicate (length (filter (\<lambda>x. raised x = None) fs)) CHR ''.''\<rparr>)"
    by (simp add: upload_and_report_def w py_write_def progress_count Let_def)
next
  assume "submit_all s3 rnd bucket_name retention prefix start_index num_objects = (Some e', fs)"
  then show "upload_and_report s3 rnd finish bucket_name retention prefix start_index num_objects c
        = (Inl e', c\<lparr>stdout := stdout c
              @ replicate (length (filter (\<lambda>x. raised x = None) fs)) CHR ''.''\<rparr>)"
    by (simp add: upload_and_report_def py_write_def progress_count)
next
  assume "u \<in> set fs \<and> raised u \<noteq> None"
  then have "u \<in> set (as_completed finish fs)" "raised u \<noteq> None"
    by (simp_all add: as_completed_set)
  then show "\<exists>before t after e. as_completed finish fs = before @ t # after
           \<and> (\<forall>x\<in>set before. raised x = None) \<and> raised t = Some e"
    by (rule first_failure)
next
  show "set (as_completed finish fs) = set fs"
    by (rule as_completed_set)
next
  show "length (as_completed finish fs) = length fs"
    by (rule as_completed_length)
qed

lemma example_tasks:
  "submit_all s3 fixed_draws ''vault'' ''2024-12-31T00:00:00Z'' ''test-'' 10 2
     = (None, [create_object s3 ''vault'' ''test-10.txt'' ''2024-12-31T00:00:00Z'' (fixed_draws 10),
               create_object s3 ''vault'' ''test-11.txt'' ''2024-12-31T00:00:00Z'' (fixed_draws 11)])"
  "submit_all s3 fixed_draws ''vault'' ''2024-12-31T00:00:00Z'' ''test-'' 10 1
     = (None, [create_object s3 ''vault'' ''test-10.txt'' ''2024-12-31T00:00:00Z'' (fixed_draws 10)])"
proof -
  have b: "(0::int) \<le> 10" "(10::int) + 2 \<le> 10 ^ max_str_digits" "(10::int) + 1 \<le> 10 ^ max_str_digits"
    using below_limit [of 12] by simp_all
  show "submit_all s3 fixed_draws ''vault'' ''2024-12-31T00:00:00Z'' ''test-'' 10 2
     = (None, [create_object s3 ''vault'' ''test-10.txt'' ''2024-12-31T00:00:00Z'' (fixed_draws 10),
               create_object s3 ''vault'' ''test-11.txt'' ''2024-12-31T00:00:00Z'' (fixed_draws 11)])"
    by (simp add: submit_all_within [OF b(1,2)] py_range_def upto_rec_numeral
        decimal_def str_nat.simps digit_char_def)
  show "submit_all s3 fixed_draws ''vault'' ''2024-12-31T00:00:00Z'' ''test-'' 10 1
     = (None, [create_object s3 ''vault'' ''test-10.txt'' ''2024-12-31T00:00:00Z'' (fixed_draws 10)])"
    by (simp add: submit_all_within [OF b(1,3)] py_range_def upto_rec_numeral
        decimal_def str_nat.simps digit_char_def)
qed

text \<open>Two uploads that succeed, and one that is denied.\<close>

theorem upload_outcome_witness:
  "upload_and_report example_store fixed_draws in_order ''vault'' ''2024-12-31T00:00:00Z'' ''test-'' 10 2 (typed [])
     = (Inr (), \<lparr>stdin = [], stdout = ''..'' @ summary_text ''2'' ''test-'' ''vault'' @ [CHR 0x0A]\<rparr>)
   \<and> upload_and_report readonly_store fixed_draws in_order ''vault'' ''2024-12-31T00:00:00Z'' ''test-'' 10 1 (typed [])
     = (Inl (ClientError ''AccessDenied''), typed [])"
proof -
  let ?a = "create_object example_store ''vault'' ''test-10.txt'' ''2024-12-31T00:00:00Z'' (fixed_draws 10)"
  let ?b = "create_object example_store ''vault'' ''test-11.txt'' ''2024-12-31T00:00:00Z'' (fixed_draws 11)"
  let ?d = "create_object readonly_store ''vault'' ''test-10.txt'' ''2024-12-31T00:00:00Z'' (fixed_draws 10)"
  have ok: "\<forall>t\<in>set [?a, ?b]. raised t = None"
    by (simp add: create_object_def Let_def example_store_def)
  have two: "py_str 2 = Inr ''2''"
    by (simp add: str_eval)
  have den: "raised ?d = Some (ClientError ''AccessDenied'')"
    by (simp add: create_object_def Let_def readonly_store_def)
  have ord: "as_completed in_order [?d] = [] @ ?d # []"
    by (simp add: as_completed_def)
  have none: "\<forall>x\<in>set []. raised x = None"
    by simp
  from upload_outcome [of example_store fixed_draws "''vault''" "''2024-12-31T00:00:00Z''" "''test-''" 10 2
      "[?a, ?b]" "''2''" in_order "typed []"] example_tasks(1) [of example_store] ok two
  have 1: "upload_and_report example_store fixed_draws in_order ''vault'' ''2024-12-31T00:00:00Z'' ''test-'' 10 2 (typed [])
     = (Inr (), \<lparr>stdin = [], stdout = ''..'' @ summary_text ''2'' ''test-'' ''vault'' @ [CHR 0x0A]\<rparr>)"
    by (simp add: typed_def numeral_2_eq_2)
  from upload_outcome [of readonly_store fixed_draws "''vault''" "''2024-12-31T00:00:00Z''" "''test-''" 10 1
      "[?d]" _ in_order "typed []" "[]" ?d "[]" "ClientError ''AccessDenied''"]
    example_tasks(2) [of readonly_store] den ord none
  have 2: "upload_and_report readonly_store fixed_draws in_order ''vault'' ''2024-12-31T00:00:00Z'' ''test-'' 10 1 (typed [])
     = (Inl (ClientError ''AccessDenied''), typed [])"
    by (simp add: typed_def)
  from 1 2 show ?thesis by simp
qed

text \<open>
  C6 as the claim states it fails: with one object requested of a store that denies the
  upload, the run ends with the exception and its output does not end with the summary line.
\<close>

theorem summary_after_failure_counterexample:
  "upload_and_report readonly_store fixed_draws in_order ''vault'' ''2024-12-31T00:00:00Z'' ''test-'' 10 1 (typed [])
     = (Inl (ClientError ''AccessDenied''), typed [])
   \<and> fst (script readonly_store fixed_draws in_order
             (typed [''1'', ''2024-12-31T00:00:00Z'', ''1'', ''test-'', ''10'']))
       = Inl (ClientError ''AccessDenied'')
   \<and> \<not> ends_with (stdout (snd (script readonly_store fixed_draws in_order
             (typed [''1'', ''2024-12-31T00:00:00Z'', ''1'', ''test-'', ''10'']))))
          (summary_text ''1'' ''test-'' ''vault'' @ [CHR 0x0A])"
  by code_simp


section \<open>Selections outside the list\<close>

lemma stdin_py_print: "stdin (py_print s c) = stdin c"
  by (simp add: py_print_def py_write_def)

lemma stdin_print_each: "stdin (foldl (\<lambda>c' x. py_print (f x) c') c xs) = stdin c"
  by (induction xs arbitrary: c) (simp_all add: stdin_py_print)

lemma stdin_show_choices: "stdin (show_choices locked c) = stdin c"
proof -
  have "(\<lambda>c' (i, bucket_name). py_print (CHR 0x09 # '' '' @ decimal (int i + 1) @ ''. '' @ bucket_name) c')
      = (\<lambda>c' x. py_print (CHR 0x09 # '' '' @ decimal (int (fst x) + 1) @ ''. '' @ snd x) c')"
    by (simp add: fun_eq_iff split: prod.splits)
  then show ?thesis
    by (simp add: show_choices_def Let_def stdin_print_each stdin_py_print)
qed

lemma show_buckets_ok:
  "buckets \<noteq> [] \<Longrightarrow> \<exists>c1. show_buckets buckets c = (Inr (), c1) \<and> stdin c1 = stdin c"
  by (simp add: show_buckets_def Let_def stdin_print_each stdin_py_print)

text \<open>
  C7, as the script has it. With \<open>n\<close> buckets listed, a typed integer \<open>k\<close> with \<open>k > n\<close>
  or \<open>k < 1 - n\<close> raises \<^verbatim>\<open>IndexError\<close>: the prompt is written once, one line is read,
  nothing else is asked, and the run ends with that exception.
\<close>

theorem selection_out_of_range:
  "(stdin c = line # rest \<and> py_int line = Inr k
      \<and> (int (length locked) < k \<or> k < 1 - int (length locked)) \<longrightarrow>
      select_bucket locked c
        = (Inl IndexError,
           c\<lparr>stdout := stdout c @ CHR 0x0A # ''Enter the number of the bucket with ObjectLock you want to use: '',
             stdin := rest\<rparr>))
   \<and> (buckets_with_object_lock s3 = Inr locked \<and> list_buckets s3 \<noteq> []
      \<and> stdin c = line # rest \<and> py_int line = Inr k
      \<and> (int (length locked) < k \<or> k < 1 - int (length locked)) \<longrightarrow>
      fst (script s3 rnd finish c) = Inl IndexError \<and> stdin (snd (script s3 rnd finish c)) = rest)"
proof (intro conjI impI)
  assume a: "stdin c = line # rest \<and> py_int line = Inr k
      \<and> (int (length locked) < k \<or> k < 1 - int (length locked))"
  then have "py_index locked (k - 1) = Inl IndexError"
    by (auto simp: py_index_def)
  with a show "select_bucket locked c
        = (Inl IndexError,
           c\<lparr>stdout := stdout c @ CHR 0x0A # ''Enter the number of the bucket with ObjectLock you want to use: '',
             stdin := rest\<rparr>)"
    by (simp add: select_bucket_line [of c line rest k] py_write_def)
next
  assume a: "buckets_with_object_lock s3 = Inr locked \<and> list_buckets s3 \<noteq> []
      \<and> stdin c = line # rest \<and> py_int line = Inr k
      \<and> (int (length locked) < k \<or> k < 1 - int (length locked))"
  then obtain c1 where c1: "show_buckets (list_buckets s3) c = (Inr (), c1)" "stdin c1 = stdin c"
    using show_buckets_ok [of "list_buckets s3" c] by blast
  let ?c2 = "show_choices locked c1"
  from a c1 have s: "stdin ?c2 = line # rest"
    by (simp add: stdin_show_choices)
  from a have "py_index locked (k - 1) = Inl IndexError"
    by (auto simp: py_index_def)
  with a s have sel: "select_bucket locked ?c2
      = (Inl IndexError,
         (py_write (CHR 0x0A # ''Enter the number of the bucket with ObjectLock you want to use: '') ?c2)
           \<lparr>stdin := rest\<rparr>)"
    by (simp add: select_bucket_line [of ?c2 line rest k])
  from a c1 sel have "script s3 rnd finish c
      = (Inl IndexError,
         (py_write (CHR 0x0A # ''Enter the number of the bucket with ObjectLock you want to use: '') ?c2)
           \<lparr>stdin := rest\<rparr>)"
    by (simp add: script_def)
  then show "fst (script s3 rnd finish c) = Inl IndexError"
    and "stdin (snd (script s3 rnd finish c)) = rest"
    by simp_all
qed

text \<open>Typing \<^verbatim>\<open>4\<close> with three buckets listed, and \<^verbatim>\<open>-2\<close> with two.\<close>

theorem selection_out_of_range_witness:
  "select_bucket [''vault'', ''archive'', ''ledger''] (typed [''4'', ''1''])
     = (Inl IndexError,
        \<lparr>stdin = [''1''],
         stdout = CHR 0x0A # ''Enter the number of the bucket with ObjectLock you want to use: ''\<rparr>)
   \<and> fst (script example_store fixed_draws in_order (typed [''-2'', ''1''])) = Inl IndexError
   \<and> stdin (snd (script example_store fixed_draws in_order (typed [''-2'', ''1'']))) = [''1'']"
proof -
  have i: "py_int ''4'' = Inr 4" "py_int ''-2'' = Inr (- 2)"
    by (simp_all add: int_eval)
  have s: "stdin (typed [''4'', ''1'']) = ''4'' # [''1'']" "stdin (typed [''-2'', ''1'']) = ''-2'' # [''1'']"
    by (simp_all add: typed_def)
  have n: "list_buckets example_store \<noteq> []"
    by (simp add: example_store_def)
  have b: "buckets_with_object_lock example_store = Inr [''vault'', ''archive'']"
    by (simp add: buckets_with_object_lock_def example_store_def)
  from selection_out_of_range [of "typed [''4'', ''1'']" "''4''" "[''1'']" 4 "[''vault'', ''archive'', ''ledger'']"] i s
  have 1: "select_bucket [''vault'', ''archive'', ''ledger''] (typed [''4'', ''1''])
     = (Inl IndexError,
        \<lparr>stdin = [''1''],
         stdout = CHR 0x0A # ''Enter the number of the bucket with ObjectLock you want to use: ''\<rparr>)"
    by (simp add: typed_def)
  from selection_out_of_range [of "typed [''-2'', ''1'']" "''-2''" "[''1'']" "- 2" "[''vault'', ''archive'']"
      example_store fixed_draws in_order] i s n b
  have 2: "fst (script example_store fixed_draws in_order (typed [''-2'', ''1''])) = Inl IndexError
   \<and> stdin (snd (script example_store fixed_draws in_order (typed [''-2'', ''1'']))) = [''1'']"
    by simp
  from 1 2 show ?thesis by simp
qed

text \<open>
  C7 as the claim states it fails: \<^verbatim>\<open>0\<close> reads as an integer and is the number of no listed
  bucket, yet it raises nothing and selects the last bucket.
\<close>

theorem selection_zero_counterexample:
  "py_int ''0'' = Inr 0
   \<and> fst (select_bucket [''vault'', ''archive'', ''ledger''] (typed [''0''])) = Inr ''ledger''
   \<and> fst (select_bucket [''vault'', ''archive'', ''ledger''] (typed [''0''])) \<noteq> Inl IndexError"
  by (simp add: select_bucket_def py_input_def typed_def py_index_def py_write_def py_print_def int_eval)

section \<open>The count and the start index\<close>

lemma reprompt_valid: "valid answer \<Longrightarrow> reprompt valid complaint prompt answer c = (Inr answer, c)"
  by (simp add: reprompt.simps)

text \<open>
  C8 at the line \<^verbatim>\<open>U+00B2\<close> (superscript two): \<^verbatim>\<open>isdigit\<close> holds of it, so neither loop asks
  again, and \<^verbatim>\<open>int\<close> raises \<^verbatim>\<open>ValueError\<close> on it, at the count prompt and at the start index
  prompt alike.
\<close>

theorem superscript_digit_accepted:
  "isdigit [CHR 0xB2]
   \<and> py_int [CHR 0xB2] = Inl ValueError
   \<and> read_num_objects (typed [[CHR 0xB2]])
       = (Inl ValueError, \<lparr>stdin = [], stdout = ''Enter the number of objects to create: ''\<rparr>)
   \<and> read_start_index (typed [[CHR 0xB2]])
       = (Inl ValueError, \<lparr>stdin = [], stdout = ''Enter the initial index to use for the objects: ''\<rparr>)"
proof -
  have d: "isdigit [CHR 0xB2]"
    by (simp add: isdigit_def is_digit_char_def)
  have i: "py_int [CHR 0xB2] = Inl ValueError"
    by (simp add: int_eval)
  show ?thesis
    using d i
    by (simp add: read_num_objects_def read_start_index_def py_input_def typed_def py_write_def
        reprompt_valid)
qed

section \<open>The retention date\<close>







































end
